theory Spec2Isabelle
  imports Main "HOL-Library.Word"
begin

section \<open>Errors\<close>

text \<open>
  The exceptions the modelled code throws. \<open>InvalidStateKey\<close> and
  \<open>NotFoundCodeError\<close> are the two error structs of the sources;
  \<open>RuntimeError\<close> is \<open>std::runtime_error\<close> with its message;
  \<open>OutOfRange\<close> is what \<open>std::string_view::substr\<close> throws when the start
  position lies behind the end of the view.
\<close>

datatype error =
    InvalidStateKey
  | NotFoundCodeError
  | RuntimeError string
  | OutOfRange

section \<open>The key codec (StateKVResolver.h)\<close>

text \<open>
  Byte buffers are \<open>string\<close>s (lists of 8-bit characters). A state key is the pair of a
  table name and a key, both byte ranges.
\<close>

type_synonym StateKey = "string \<times> string"

definition TABLE_KEY_SPLIT :: char where
  "TABLE_KEY_SPLIT = CHR '':''"

text \<open>\<open>StateKeyResolver::encode\<close>: the table name, the separator, the key.\<close>

definition StateKeyResolver_encode :: "StateKey \<Rightarrow> string" where
  "StateKeyResolver_encode stateKey =
     (case stateKey of (tableName, key) \<Rightarrow> tableName @ [TABLE_KEY_SPLIT] @ key)"

text \<open>
  \<open>std::string_view::find(char)\<close>: the index of the first occurrence, \<open>None\<close> for
  \<open>npos\<close>.
\<close>

fun sv_find :: "string \<Rightarrow> char \<Rightarrow> nat option" where
  "sv_find [] c = None"
| "sv_find (x # xs) c = (if x = c then Some 0 else map_option Suc (sv_find xs c))"

text \<open>
  \<open>std::string_view::substr(pos, count)\<close>: throws when \<open>pos\<close> is greater than the
  size, otherwise the characters from \<open>pos\<close>, at most \<open>count\<close> of them.
\<close>

definition sv_substr :: "string \<Rightarrow> nat \<Rightarrow> nat \<Rightarrow> error + string" where
  "sv_substr view pos count =
     (if pos > length view then Inl OutOfRange
      else Inr (take (min count (length view - pos)) (drop pos view)))"

text \<open>\<open>StateKeyResolver::decode\<close>, every throw a left result.\<close>

definition StateKeyResolver_decode :: "string \<Rightarrow> error + StateKey" where
  "StateKeyResolver_decode buffer =
     (case sv_find buffer TABLE_KEY_SPLIT of
        None \<Rightarrow> Inl InvalidStateKey
      | Some pos \<Rightarrow>
          (case sv_substr buffer 0 pos of
             Inl e \<Rightarrow> Inl e
           | Inr tableRange \<Rightarrow>
               (case sv_substr buffer (pos + 1) (length buffer) of
                  Inl e \<Rightarrow> Inl e
                | Inr keyRange \<Rightarrow>
                    if tableRange = [] \<or> keyRange = [] then Inl InvalidStateKey
                    else Inr (tableRange, keyRange))))"

section \<open>EVMC data (evmc.h)\<close>

text \<open>
  Addresses (\<open>evmc_address\<close>, 20 bytes), 32-byte words (\<open>evmc_bytes32\<close>) and hashes
  are byte strings. Of a message the fields the host reads are kept, and gas and depth,
  which it hands on untouched.
\<close>

type_synonym evmc_address = string
type_synonym evmc_bytes32 = string

datatype evmc_call_kind =
    EVMC_CALL
  | EVMC_DELEGATECALL
  | EVMC_CALLCODE
  | EVMC_CREATE
  | EVMC_CREATE2

record evmc_message =
  kind :: evmc_call_kind
  depth :: int
  gas :: int
  recipient :: evmc_address
  sender :: evmc_address
  input_data :: string
  code_address :: evmc_address

text \<open>\<open>EVMCResult\<close>: the status code (0 is \<open>EVMC_SUCCESS\<close>), the gas left, the output
  bytes and the address of a created contract.\<close>

record EVMCResult =
  status_code :: int
  gas_left :: int
  output_data :: string
  create_address :: evmc_address

definition EVMC_SUCCESS :: int where
  "EVMC_SUCCESS = 0"

text \<open>\<open>protocol::LogEntry\<close>, built by \<open>log\<close> from an empty address, the topics and the
  data.\<close>

record LogEntry =
  log_address :: string
  log_topics :: "string list"
  log_data :: string

section \<open>The interpreter as seen from the host\<close>

text \<open>
  The interpreter (evmone behind \<open>VMFactory\<close>) is foreign code. All it can do to the
  host is call back through the host interface and finally return a result, so one
  execution is a tree: a leaf is the returned result, an inner node is one call of a
  host method together with how the interpreter goes on from the method's answer.
  Nothing is assumed about which tree a given code yields.
\<close>

datatype interp =
    Return EVMCResult
  | Call_get evmc_bytes32 "evmc_bytes32 \<Rightarrow> interp"
  | Call_set evmc_bytes32 evmc_bytes32 interp
  | Call_code evmc_address "string option \<Rightarrow> interp"
  | Call_codeSizeAt evmc_address "nat \<Rightarrow> interp"
  | Call_codeHashAt evmc_address "string \<Rightarrow> interp"
  | Call_exists string "bool \<Rightarrow> interp"
  | Call_blockHash int "string \<Rightarrow> interp"
  | Call_blockNumber "int \<Rightarrow> interp"
  | Call_log "string list" string interp
  | Call_suicide interp
  | Call_externalCall evmc_message "EVMCResult \<Rightarrow> interp"

section \<open>The rollbackable storage\<close>

text \<open>
  Modelled from the spec: the storage class behind \<open>m_rollbackableStorage\<close> is not
  among the sources. Following section 4.2 of the specification it is a key-value
  view together with its write history; each history record holds the key written and
  the value (or absence) the key had before, the latest write first.
\<close>

record Rollbackable =
  m_storage :: "StateKey \<Rightarrow> string option"
  m_records :: "(StateKey \<times> string option) list"

text \<open>Modelled from the spec: \<open>read\<close> of one key gives its entry or absence and never
  fails for a missing key.\<close>

definition read_one :: "Rollbackable \<Rightarrow> StateKey \<Rightarrow> string option" where
  "read_one s k = m_storage s k"

text \<open>Modelled from the spec: \<open>storage2::existsOne\<close>, whether a read of the key finds a
  value.\<close>

definition existsOne :: "Rollbackable \<Rightarrow> StateKey \<Rightarrow> bool" where
  "existsOne s k = (read_one s k \<noteq> None)"

text \<open>Modelled from the spec: \<open>write\<close> of one key overwrites any prior value, at once
  visible to later reads, and is recorded in the history.\<close>

definition write_one :: "StateKey \<Rightarrow> string \<Rightarrow> Rollbackable \<Rightarrow> Rollbackable" where
  "write_one k v s =
     s\<lparr>m_storage := (m_storage s)(k \<mapsto> v), m_records := (k, m_storage s k) # m_records s\<rparr>"

text \<open>Modelled from the spec: \<open>current\<close> captures a point in the write history.\<close>

definition current :: "Rollbackable \<Rightarrow> nat" where
  "current s = length (m_records s)"

text \<open>Modelled from the spec: \<open>rollback\<close> discards every write performed after the
  savepoint, latest first, restoring the prior value or absence of each key, and leaves
  the writes before the savepoint intact.\<close>

fun undo :: "nat \<Rightarrow> (StateKey \<times> string option) list \<Rightarrow> (StateKey \<Rightarrow> string option)
    \<Rightarrow> (StateKey \<times> string option) list \<times> (StateKey \<Rightarrow> string option)" where
  "undo savepoint [] m = ([], m)"
| "undo savepoint ((k, old) # rs) m =
     (if length rs \<ge> savepoint then undo savepoint rs (m(k := old)) else ((k, old) # rs, m))"

definition rollback :: "nat \<Rightarrow> Rollbackable \<Rightarrow> Rollbackable" where
  "rollback savepoint s =
     (case undo savepoint (m_records s) (m_storage s) of
        (rs, m) \<Rightarrow> s\<lparr>m_storage := m, m_records := rs\<rparr>)"

section \<open>The execution host (HostContext.h)\<close>

subsection \<open>Constants and helpers the header takes from elsewhere\<close>

text \<open>
  The hash implementation is a global of the program (\<open>GlobalHashImpl::g_hashImpl\<close>),
  and the table-name prefix, the code-hash field name and the names of the two system
  tables are constants declared outside the sources. They are parameters here.
\<close>

record globals =
  g_hashImpl :: "string \<Rightarrow> string"
  USER_APPS_PREFIX :: string
  ACCOUNT_CODE_HASH :: string
  SYS_CODE_BINARY :: string
  SYS_CONTRACT_ABI :: string

text \<open>Modelled from the spec: \<open>EMPTY_ADDRESS\<close> is declared outside the sources; the
  specification calls it the zero address, the sentinel for an unset sender.\<close>

definition EMPTY_ADDRESS :: evmc_address where
  "EMPTY_ADDRESS = replicate 20 (CHR 0x00)"

definition MAX_PRECOMPILED_ADDRESS :: nat where
  "MAX_PRECOMPILED_ADDRESS = 100000"

text \<open>\<open>fromBigEndian<u160>\<close> of the 20 bytes of an address.\<close>

definition fromBigEndian :: "string \<Rightarrow> nat" where
  "fromBigEndian bs = foldl (\<lambda>acc c. acc * 256 + of_char c) 0 bs"

text \<open>What \<open>fmt::format("{}", i)\<close> prints for an integer: its decimal digits, after a
  minus sign when it is negative.\<close>

fun format_nat :: "nat \<Rightarrow> string" where
  "format_nat n =
     (if n < 10 then [''0123456789'' ! n]
      else format_nat (n div 10) @ [''0123456789'' ! (n mod 10)])"

declare format_nat.simps [simp del]

definition format_int :: "int \<Rightarrow> string" where
  "format_int i = (if i < 0 then CHR ''-'' # format_nat (nat (- i)) else format_nat (nat i))"

text \<open>The constructor \<open>h256(data, size)\<close> and the empty \<open>h256{}\<close>: 32 bytes, zero where
  the data ends.\<close>

definition h256 :: "string \<Rightarrow> string" where
  "h256 view = take 32 view @ replicate (32 - length view) (CHR 0x00)"

subsection \<open>The host and the state it shares\<close>

record BlockHeader =
  number :: int
  version :: nat
  timestamp :: int

text \<open>
  The members of \<open>HostContext\<close>, but for the two it holds by reference and shares with
  its caller and its children: the storage and the call sequence counter. These make up
  the shared state, which every method takes and returns. The table name pool interns
  names by content, so a \<open>TableNameID\<close> is the name itself. The counter is an
  \<open>int64_t\<close>: a 64-bit word, read as a signed number where it is printed, whose
  increment wraps around.
\<close>

record HostContext =
  m_globals :: globals
  m_vmFactory :: "string \<Rightarrow> evmc_message \<Rightarrow> interp"
  m_blockHeader :: BlockHeader
  m_message :: evmc_message
  m_origin :: evmc_address
  m_contextID :: int
  m_precompiledManager :: "nat \<Rightarrow> (evmc_message \<Rightarrow> EVMCResult) option"
  m_myContractTable :: string
  m_codeTable :: string
  m_abiTable :: string
  m_newContractAddress :: evmc_address
  m_logs :: "LogEntry list"

record shared =
  m_rollbackableStorage :: Rollbackable
  m_seq :: "64 word"

text \<open>
  A method that can throw returns the error or its value, next to the host and the
  shared state as the method left them. \<open>None\<close> stands for an execution whose nested
  calls go deeper than the bound it was run with.
\<close>

type_synonym 'a task = "((error + 'a) \<times> HostContext \<times> shared) option"

type_synonym executor = "HostContext \<Rightarrow> shared \<Rightarrow> EVMCResult task"

definition getTableNameID :: "globals \<Rightarrow> evmc_address \<Rightarrow> string" where
  "getTableNameID g address = USER_APPS_PREFIX g @ address"

text \<open>\<open>getMyContractTable\<close> gives the table and sets \<open>m_newContractAddress\<close>; both
  are returned.\<close>

definition getMyContractTable ::
    "globals \<Rightarrow> BlockHeader \<Rightarrow> evmc_message \<Rightarrow> int \<Rightarrow> 64 word \<Rightarrow> error + string \<times> evmc_address" where
  "getMyContractTable g blockHeader message contextID seq =
     (case kind message of
        EVMC_CREATE \<Rightarrow>
          (let address = format_int (number blockHeader) @ ''_'' @ format_int contextID
                           @ ''_'' @ format_int (sint seq);
               hash = g_hashImpl g address;
               newContractAddress = take 20 hash
           in Inr (getTableNameID g newContractAddress, newContractAddress))
      | EVMC_CREATE2 \<Rightarrow> Inl (RuntimeError ''Unimplement'')
      | _ \<Rightarrow> Inr (getTableNameID g (recipient message), replicate 20 (CHR 0x00)))"

text \<open>The constructor; it reads the counter of the shared state.\<close>

definition HostContext_new ::
    "globals \<Rightarrow> (string \<Rightarrow> evmc_message \<Rightarrow> interp) \<Rightarrow> BlockHeader \<Rightarrow> evmc_message
      \<Rightarrow> evmc_address \<Rightarrow> int \<Rightarrow> (nat \<Rightarrow> (evmc_message \<Rightarrow> EVMCResult) option) \<Rightarrow> shared
      \<Rightarrow> error + HostContext" where
  "HostContext_new g vmFactory blockHeader message origin contextID precompiledManager sh =
     (case getMyContractTable g blockHeader message contextID (m_seq sh) of
        Inl e \<Rightarrow> Inl e
      | Inr (table, newContractAddress) \<Rightarrow>
          Inr \<lparr>m_globals = g, m_vmFactory = vmFactory, m_blockHeader = blockHeader,
               m_message = message, m_origin = origin, m_contextID = contextID,
               m_precompiledManager = precompiledManager,
               m_myContractTable = table,
               m_codeTable = SYS_CODE_BINARY g,
               m_abiTable = SYS_CONTRACT_ABI g,
               m_newContractAddress = newContractAddress,
               m_logs = []\<rparr>)"

subsection \<open>Storage accessors\<close>

text \<open>\<open>get\<close>: the first 32 bytes of the slot's entry, 32 zero bytes when the slot is
  absent. The source copies 32 bytes from the entry whatever its length; for an entry
  shorter than that it reads behind the entry's end, and the bytes it then returns are
  not determined by the program, whereas here the result ends with the entry. The
  entries \<open>set\<close> writes are 32 bytes long.\<close>

definition get :: "HostContext \<Rightarrow> evmc_bytes32 \<Rightarrow> shared \<Rightarrow> evmc_bytes32" where
  "get h key sh =
     (case read_one (m_rollbackableStorage sh) (m_myContractTable h, key) of
        Some field \<Rightarrow> take 32 field
      | None \<Rightarrow> replicate 32 (CHR 0x00))"

definition set_slot :: "HostContext \<Rightarrow> evmc_bytes32 \<Rightarrow> evmc_bytes32 \<Rightarrow> shared \<Rightarrow> shared" where
  "set_slot h key val sh =
     sh\<lparr>m_rollbackableStorage :=
          write_one (m_myContractTable h, key) val (m_rollbackableStorage sh)\<rparr>"

definition code :: "HostContext \<Rightarrow> evmc_address \<Rightarrow> shared \<Rightarrow> string option" where
  "code h address sh =
     (case read_one (m_rollbackableStorage sh)
             (getTableNameID (m_globals h) address, ACCOUNT_CODE_HASH (m_globals h)) of
        Some codeHashEntry \<Rightarrow>
          (case read_one (m_rollbackableStorage sh) (m_codeTable h, codeHashEntry) of
             Some codeEntry \<Rightarrow> Some codeEntry
           | None \<Rightarrow> None)
      | None \<Rightarrow> None)"

text \<open>\<open>setCode(codeHash, code)\<close>.\<close>

definition setCode :: "HostContext \<Rightarrow> string \<Rightarrow> string \<Rightarrow> shared \<Rightarrow> shared" where
  "setCode h codeHash code' sh =
     (let storage1 =
            (if \<not> existsOne (m_rollbackableStorage sh) (m_codeTable h, codeHash)
             then write_one (m_codeTable h, codeHash) code' (m_rollbackableStorage sh)
             else m_rollbackableStorage sh)
      in sh\<lparr>m_rollbackableStorage :=
             write_one (m_myContractTable h, ACCOUNT_CODE_HASH (m_globals h)) codeHash storage1\<rparr>)"

text \<open>The overload \<open>setCode(code)\<close>, which hashes the code itself.\<close>

definition setCode_code :: "HostContext \<Rightarrow> string \<Rightarrow> shared \<Rightarrow> shared" where
  "setCode_code h code' sh = setCode h (g_hashImpl (m_globals h) code') code' sh"

text \<open>\<open>setCodeAndABI\<close>. Its write names the ABI table once more in front of the key
  and the entry; the key written is the code hash in the ABI table.\<close>

definition setCodeAndABI :: "HostContext \<Rightarrow> string \<Rightarrow> string \<Rightarrow> shared \<Rightarrow> shared" where
  "setCodeAndABI h code' abi sh =
     (let codeHash = g_hashImpl (m_globals h) code';
          sh1 = setCode h codeHash code' sh
      in case read_one (m_rollbackableStorage sh1) (m_abiTable h, codeHash) of
           None \<Rightarrow>
             sh1\<lparr>m_rollbackableStorage :=
                  write_one (m_abiTable h, codeHash) abi (m_rollbackableStorage sh1)\<rparr>
         | Some _ \<Rightarrow> sh1)"

definition codeSizeAt :: "HostContext \<Rightarrow> evmc_address \<Rightarrow> shared \<Rightarrow> nat" where
  "codeSizeAt h address sh =
     (case code h address sh of Some codeEntry \<Rightarrow> length codeEntry | None \<Rightarrow> 0)"

definition codeHashAt :: "HostContext \<Rightarrow> evmc_address \<Rightarrow> shared \<Rightarrow> string" where
  "codeHashAt h address sh =
     (case read_one (m_rollbackableStorage sh)
             (getTableNameID (m_globals h) address, ACCOUNT_CODE_HASH (m_globals h)) of
        Some codeHashEntry \<Rightarrow> h256 codeHashEntry
      | None \<Rightarrow> h256 [])"

definition exists :: "HostContext \<Rightarrow> string \<Rightarrow> bool" where
  "exists h address = True"

text \<open>\<open>blockHash\<close> throws before it returns anything.\<close>

definition blockHash :: "HostContext \<Rightarrow> int \<Rightarrow> error + string" where
  "blockHash h n = Inl (RuntimeError ''Unsupported method!'')"

definition blockNumber :: "HostContext \<Rightarrow> int" where
  "blockNumber h = number (m_blockHeader h)"

definition log :: "string list \<Rightarrow> string \<Rightarrow> HostContext \<Rightarrow> HostContext" where
  "log topics data' h =
     h\<lparr>m_logs := m_logs h @ [\<lparr>log_address = [], log_topics = topics, log_data = data'\<rparr>]\<rparr>"

text \<open>\<open>suicide\<close> has an empty body in either branch.\<close>

definition suicide :: "HostContext \<Rightarrow> HostContext" where
  "suicide h = h"

subsection \<open>Nested dispatch and execution\<close>

text \<open>
  \<open>externalCall\<close> constructs a child host and calls its \<open>execute\<close>, which in turn
  runs an interpreter that may call \<open>externalCall\<close> of the child. The recursion is
  opened: the methods take the \<open>execute\<close> of the children as their first argument, and
  \<open>execute_depth\<close> below closes it. A precompiled handler is called with the message
  alone and gives a result.
\<close>

definition externalCall :: "executor \<Rightarrow> HostContext \<Rightarrow> evmc_message \<Rightarrow> shared \<Rightarrow> EVMCResult task" where
  "externalCall ex h message sh =
     (let address = fromBigEndian (code_address message);
          precompiled =
            (if address > 0 \<and> address < MAX_PRECOMPILED_ADDRESS
             then m_precompiledManager h address else None)
      in case precompiled of
           Some p \<Rightarrow> Some (Inr (p message), h, sh)
         | None \<Rightarrow>
             (let sh1 = sh\<lparr>m_seq := m_seq sh + 1\<rparr>;
                  message1 =
                    (if kind message = EVMC_CREATE \<and> sender message = EMPTY_ADDRESS
                     then message\<lparr>sender := m_newContractAddress h\<rparr> else message)
              in case HostContext_new (m_globals h) (m_vmFactory h) (m_blockHeader h) message1
                        (m_origin h) (m_contextID h) (m_precompiledManager h) sh1 of
                   Inl e \<Rightarrow> Some (Inl e, h, sh1)
                 | Inr hostcontext \<Rightarrow>
                     (case ex hostcontext sh1 of
                        None \<Rightarrow> None
                      | Some (Inl e, hostcontext1, sh2) \<Rightarrow> Some (Inl e, h, sh2)
                      | Some (Inr result, hostcontext1, sh2) \<Rightarrow>
                          Some (Inr result,
                                (if status_code result = EVMC_SUCCESS \<and> m_logs hostcontext1 \<noteq> []
                                 then h\<lparr>m_logs := m_logs h @ m_logs hostcontext1\<rparr> else h),
                                sh2))))"

text \<open>
  \<open>vmInstance.execute\<close> with this host as its host context: the interpreter's tree is
  walked, each node answered by the host method it names. An exception thrown by a
  method passes through the interpreter.
\<close>

primrec run_interp :: "executor \<Rightarrow> interp \<Rightarrow> HostContext \<Rightarrow> shared \<Rightarrow> EVMCResult task" where
  "run_interp ex (Return result) h sh = Some (Inr result, h, sh)"
| "run_interp ex (Call_get key k) h sh = run_interp ex (k (get h key sh)) h sh"
| "run_interp ex (Call_set key val k) h sh = run_interp ex k h (set_slot h key val sh)"
| "run_interp ex (Call_code address k) h sh = run_interp ex (k (code h address sh)) h sh"
| "run_interp ex (Call_codeSizeAt address k) h sh =
     run_interp ex (k (codeSizeAt h address sh)) h sh"
| "run_interp ex (Call_codeHashAt address k) h sh =
     run_interp ex (k (codeHashAt h address sh)) h sh"
| "run_interp ex (Call_exists address k) h sh = run_interp ex (k (exists h address)) h sh"
| "run_interp ex (Call_blockHash n k) h sh =
     (case blockHash h n of
        Inl e \<Rightarrow> Some (Inl e, h, sh)
      | Inr hash \<Rightarrow> run_interp ex (k hash) h sh)"
| "run_interp ex (Call_blockNumber k) h sh = run_interp ex (k (blockNumber h)) h sh"
| "run_interp ex (Call_log topics data' k) h sh = run_interp ex k (log topics data' h) sh"
| "run_interp ex (Call_suicide k) h sh = run_interp ex k (suicide h) sh"
| "run_interp ex (Call_externalCall message k) h sh =
     (case externalCall ex h message sh of
        None \<Rightarrow> None
      | Some (Inl e, h1, sh1) \<Rightarrow> Some (Inl e, h1, sh1)
      | Some (Inr result, h1, sh1) \<Rightarrow> run_interp ex (k result) h1 sh1)"

definition create :: "executor \<Rightarrow> HostContext \<Rightarrow> shared \<Rightarrow> EVMCResult task" where
  "create ex h sh =
     (let createCode = input_data (m_message h);
          vmInstance = m_vmFactory h createCode;
          savepoint = current (m_rollbackableStorage sh)
      in case run_interp ex (vmInstance (m_message h)) h sh of
           None \<Rightarrow> None
         | Some (Inl e, h1, sh1) \<Rightarrow> Some (Inl e, h1, sh1)
         | Some (Inr result, h1, sh1) \<Rightarrow>
             if status_code result \<noteq> 0
             then Some (Inr result, h1,
                        sh1\<lparr>m_rollbackableStorage :=
                             rollback savepoint (m_rollbackableStorage sh1)\<rparr>)
             else Some (Inr (result\<lparr>create_address := m_newContractAddress h1\<rparr>), h1,
                        setCode_code h1 (output_data result) sh1))"

definition call :: "executor \<Rightarrow> HostContext \<Rightarrow> shared \<Rightarrow> EVMCResult task" where
  "call ex h sh =
     (case code h (code_address (m_message h)) sh of
        None \<Rightarrow> Some (Inl NotFoundCodeError, h, sh)
      | Some codeEntry \<Rightarrow>
          if length codeEntry = 0 then Some (Inl NotFoundCodeError, h, sh)
          else
            (let vmInstance = m_vmFactory h codeEntry;
                 savepoint = current (m_rollbackableStorage sh)
             in case run_interp ex (vmInstance (m_message h)) h sh of
                  None \<Rightarrow> None
                | Some (Inl e, h1, sh1) \<Rightarrow> Some (Inl e, h1, sh1)
                | Some (Inr result, h1, sh1) \<Rightarrow>
                    if status_code result \<noteq> 0
                    then Some (Inr result, h1,
                               sh1\<lparr>m_rollbackableStorage :=
                                    rollback savepoint (m_rollbackableStorage sh1)\<rparr>)
                    else Some (Inr result, h1, sh1)))"

definition execute :: "executor \<Rightarrow> HostContext \<Rightarrow> shared \<Rightarrow> EVMCResult task" where
  "execute ex h sh =
     (if kind (m_message h) = EVMC_CREATE \<or> kind (m_message h) = EVMC_CREATE2
      then create ex h sh else call ex h sh)"

text \<open>\<open>execute\<close> with the nesting of child hosts bounded: at depth 0 no execution is
  left, and a host at depth \<open>n + 1\<close> executes its children at depth \<open>n\<close>.\<close>

primrec execute_depth :: "nat \<Rightarrow> executor" where
  "execute_depth 0 = (\<lambda>h sh. None)"
| "execute_depth (Suc n) = execute (execute_depth n)"

section \<open>The invariant of the write history\<close>

text \<open>
  \<open>extends s0 s\<close>: the storage \<open>s\<close> is \<open>s0\<close> with further writes on top, that is,
  rolling \<open>s\<close> back to the savepoint of \<open>s0\<close> gives \<open>s0\<close> again. An executor is well
  behaved when every execution that returns leaves a storage that extends the one it
  started from. Both are used in the proofs only.
\<close>

definition extends :: "Rollbackable \<Rightarrow> Rollbackable \<Rightarrow> bool" where
  "extends s0 s \<longleftrightarrow> rollback (current s0) s = s0"

definition executor_ok :: "executor \<Rightarrow> bool" where
  "executor_ok ex \<longleftrightarrow>
     (\<forall>h sh out h1 sh1. ex h sh = Some (out, h1, sh1) \<longrightarrow>
        extends (m_rollbackableStorage sh) (m_rollbackableStorage sh1))"

section \<open>A small world for worked examples\<close>

text \<open>
  A hash that pads or cuts its input to 32 bytes with dots, the usual names of the
  tables, and an interpreter with three programs: \<open>revert\<close> writes a slot, logs and
  fails with status 2; \<open>deploy\<close> writes a slot, logs twice and succeeds with the
  output \<open>runtime\<close>; every other code succeeds at once and returns the sender of its
  message as output. The precompiled registry has one handler at the addresses 0 and 1.
  The storage holds the code \<open>revert\<close> for the address \<open>AAAAAAAAAAAAAAAAAAAA\<close> and an
  empty code for \<open>CCCCCCCCCCCCCCCCCCCC\<close>; the block number is 10 and the context id 1.
\<close>

definition ex_globals :: globals where
  "ex_globals =
     \<lparr>g_hashImpl = (\<lambda>s. take 32 (s @ ''................................'')),
      USER_APPS_PREFIX = ''/apps/'',
      ACCOUNT_CODE_HASH = ''codeHash'',
      SYS_CODE_BINARY = ''s_code_binary'',
      SYS_CONTRACT_ABI = ''s_contract_abi''\<rparr>"

definition ex_result :: "int \<Rightarrow> string \<Rightarrow> EVMCResult" where
  "ex_result status out =
     \<lparr>status_code = status, gas_left = 0, output_data = out, create_address = EMPTY_ADDRESS\<rparr>"

definition ex_vmFactory :: "string \<Rightarrow> evmc_message \<Rightarrow> interp" where
  "ex_vmFactory c message =
     (if c = ''revert''
      then Call_set ''slot'' ''v'' (Call_log [] ''event'' (Return (ex_result 2 ''reason'')))
      else if c = ''deploy''
      then Call_set ''slot'' ''v''
             (Call_log [] ''first'' (Call_log [] ''second'' (Return (ex_result 0 ''runtime''))))
      else Return (ex_result 0 (sender message)))"

definition ex_message :: "evmc_call_kind \<Rightarrow> string \<Rightarrow> evmc_address \<Rightarrow> evmc_message" where
  "ex_message k input a =
     \<lparr>kind = k, depth = 0, gas = 100000, recipient = a, sender = EMPTY_ADDRESS,
      input_data = input, code_address = a\<rparr>"

definition ex_header :: BlockHeader where
  "ex_header = \<lparr>number = 10, version = 0, timestamp = 0\<rparr>"

definition ex_handler :: "evmc_message \<Rightarrow> EVMCResult" where
  "ex_handler message = ex_result 0 (input_data message)"

definition ex_precompiled :: "nat \<Rightarrow> (evmc_message \<Rightarrow> EVMCResult) option" where
  "ex_precompiled a = (if a = 0 \<or> a = 1 then Some ex_handler else None)"

definition ex_address :: evmc_address where
  "ex_address = ''AAAAAAAAAAAAAAAAAAAA''"

definition ex_other :: evmc_address where
  "ex_other = ''BBBBBBBBBBBBBBBBBBBB''"

definition ex_empty :: evmc_address where
  "ex_empty = ''CCCCCCCCCCCCCCCCCCCC''"

definition ex_one :: evmc_address where
  "ex_one =
     [CHR 0x00, CHR 0x00, CHR 0x00, CHR 0x00, CHR 0x00, CHR 0x00, CHR 0x00, CHR 0x00, CHR 0x00,
      CHR 0x00, CHR 0x00, CHR 0x00, CHR 0x00, CHR 0x00, CHR 0x00, CHR 0x00, CHR 0x00, CHR 0x00,
      CHR 0x00, CHR 0x01]"

definition ex_storage :: Rollbackable where
  "ex_storage =
     \<lparr>m_storage =
        [(''/apps/AAAAAAAAAAAAAAAAAAAA'', ''codeHash'') \<mapsto> ''revert..........................'',
         (''s_code_binary'', ''revert..........................'') \<mapsto> ''revert'',
         (''/apps/CCCCCCCCCCCCCCCCCCCC'', ''codeHash'') \<mapsto> ''................................'',
         (''s_code_binary'', ''................................'') \<mapsto> []],
      m_records = []\<rparr>"

definition ex_shared :: shared where
  "ex_shared = \<lparr>m_rollbackableStorage = ex_storage, m_seq = 0\<rparr>"

text \<open>A shared state whose code table already holds other bytes under the hash of
  \<open>runtime\<close>, the output of the program \<open>deploy\<close>.\<close>

definition ex_stale_shared :: shared where
  "ex_stale_shared =
     \<lparr>m_rollbackableStorage =
        \<lparr>m_storage = [(''s_code_binary'', ''runtime.........................'') \<mapsto> ''other''],
         m_records = []\<rparr>,
      m_seq = 0\<rparr>"

definition ex_host :: "evmc_message \<Rightarrow> string \<Rightarrow> evmc_address \<Rightarrow> HostContext" where
  "ex_host message table newContractAddress =
     \<lparr>m_globals = ex_globals, m_vmFactory = ex_vmFactory, m_blockHeader = ex_header,
      m_message = message, m_origin = ex_address, m_contextID = 1,
      m_precompiledManager = ex_precompiled,
      m_myContractTable = table, m_codeTable = ''s_code_binary'',
      m_abiTable = ''s_contract_abi'',
      m_newContractAddress = newContractAddress, m_logs = []\<rparr>"

text \<open>
  The hosts the constructor builds in this world: for a call to \<open>ex_address\<close>, for a
  creation at counter 0, and for the creations nested at counter 1.
\<close>

definition ex_call_host :: HostContext where
  "ex_call_host =
     ex_host (ex_message EVMC_CALL '''' ex_address) ''/apps/AAAAAAAAAAAAAAAAAAAA'' EMPTY_ADDRESS"

definition ex_create_host :: HostContext where
  "ex_create_host =
     ex_host (ex_message EVMC_CREATE ''deploy'' EMPTY_ADDRESS)
       ''/apps/10_1_0..............'' ''10_1_0..............''"

definition ex_nested_host :: HostContext where
  "ex_nested_host =
     ex_host (ex_message EVMC_CREATE ''deploy'' EMPTY_ADDRESS)
       ''/apps/10_1_1..............'' ''10_1_1..............''"

definition ex_probe_host :: HostContext where
  "ex_probe_host =
     ex_host (ex_message EVMC_CREATE ''probe'' EMPTY_ADDRESS)
       ''/apps/10_1_1..............'' ''10_1_1..............''"

section \<open>Properties of the key codec\<close>

lemma sv_find_None: "sv_find xs c = None \<longleftrightarrow> c \<notin> set xs"
  by (induction xs) auto

lemma sv_find_append: "c \<notin> set t \<Longrightarrow> sv_find (t @ c # k) c = Some (length t)"
  by (induction t) auto

lemma sv_find_split:
  "sv_find xs c = Some n \<Longrightarrow> n < length xs \<and> xs = take n xs @ c # drop (Suc n) xs \<and> c \<notin> set (take n xs)"
proof (induction xs arbitrary: n)
  case Nil
  then show ?case by simp
next
  case (Cons x xs)
  show ?case
  proof (cases "x = c")
    case True
    with Cons.prems show ?thesis by simp
  next
    case False
    with Cons.prems obtain m where m: "sv_find xs c = Some m" "n = Suc m"
      by auto
    from Cons.IH [OF m(1)] False m(2) show ?thesis by auto
  qed
qed

lemma decode_split:
  assumes "c = TABLE_KEY_SPLIT" and "c \<notin> set t"
  shows "StateKeyResolver_decode (t @ c # k) =
           (if t = [] \<or> k = [] then Inl InvalidStateKey else Inr (t, k))"
  using assms
  by (simp add: StateKeyResolver_decode_def sv_find_append sv_substr_def)

text \<open>
  C4: for every non-empty table and non-empty key, neither containing the separator
  byte, decoding the encoding of \<open>(table, key)\<close> returns exactly \<open>(table, key)\<close>.
\<close>

theorem decode_encode_roundtrip:
  assumes "table \<noteq> []" and "key \<noteq> []"
    and "TABLE_KEY_SPLIT \<notin> set table" and "TABLE_KEY_SPLIT \<notin> set key"
  shows "StateKeyResolver_decode (StateKeyResolver_encode (table, key)) = Inr (table, key)"
  using assms by (simp add: StateKeyResolver_encode_def decode_split)

theorem decode_encode_roundtrip_witness:
  "''/apps/a'' \<noteq> [] \<and> ''slot'' \<noteq> []
   \<and> TABLE_KEY_SPLIT \<notin> set ''/apps/a'' \<and> TABLE_KEY_SPLIT \<notin> set ''slot''
   \<and> StateKeyResolver_decode (StateKeyResolver_encode (''/apps/a'', ''slot''))
       = Inr (''/apps/a'', ''slot'')"
  using decode_encode_roundtrip [of "''/apps/a''" "''slot''"]
  by (simp add: TABLE_KEY_SPLIT_def)

text \<open>
  C5: decoding fails with \<open>InvalidStateKey\<close> exactly on the malformed flat keys. A
  buffer without the separator is rejected; a buffer whose first separator stands at
  position 0 (empty table segment) or at the last position (empty key segment) is
  rejected; every other buffer, that is one whose first separator has a non-empty
  segment on both sides, decodes to these two segments.
\<close>

theorem decode_fails_iff_malformed:
  "(TABLE_KEY_SPLIT \<notin> set buffer \<longrightarrow> StateKeyResolver_decode buffer = Inl InvalidStateKey)
   \<and> (\<forall>pos. sv_find buffer TABLE_KEY_SPLIT = Some pos \<longrightarrow>
        (pos = 0 \<or> pos = length buffer - 1 \<longrightarrow>
           StateKeyResolver_decode buffer = Inl InvalidStateKey)
        \<and> (pos \<noteq> 0 \<and> pos \<noteq> length buffer - 1 \<longrightarrow>
             StateKeyResolver_decode buffer = Inr (take pos buffer, drop (pos + 1) buffer)
             \<and> take pos buffer \<noteq> [] \<and> drop (pos + 1) buffer \<noteq> []))
   \<and> (StateKeyResolver_decode buffer = Inl InvalidStateKey \<longleftrightarrow>
        (case sv_find buffer TABLE_KEY_SPLIT of
           None \<Rightarrow> True
         | Some pos \<Rightarrow> pos = 0 \<or> pos = length buffer - 1))"
proof -
  have none: "TABLE_KEY_SPLIT \<notin> set buffer \<Longrightarrow> StateKeyResolver_decode buffer = Inl InvalidStateKey"
    by (simp add: StateKeyResolver_decode_def sv_find_None [symmetric])
  have some: "StateKeyResolver_decode buffer =
                (if pos = 0 \<or> pos = length buffer - 1 then Inl InvalidStateKey
                 else Inr (take pos buffer, drop (pos + 1) buffer))
              \<and> (pos \<noteq> 0 \<and> pos \<noteq> length buffer - 1 \<longrightarrow>
                   take pos buffer \<noteq> [] \<and> drop (pos + 1) buffer \<noteq> [])"
    if "sv_find buffer TABLE_KEY_SPLIT = Some pos" for pos
  proof -
    from sv_find_split [OF that] have lt: "pos < length buffer"
      and eq: "buffer = take pos buffer @ TABLE_KEY_SPLIT # drop (Suc pos) buffer"
      and notin: "TABLE_KEY_SPLIT \<notin> set (take pos buffer)"
      by blast+
    have d: "StateKeyResolver_decode buffer =
               (if take pos buffer = [] \<or> drop (Suc pos) buffer = [] then Inl InvalidStateKey
                else Inr (take pos buffer, drop (Suc pos) buffer))"
      using decode_split [OF refl notin, of "drop (Suc pos) buffer"] eq by simp
    have e1: "take pos buffer = [] \<longleftrightarrow> pos = 0" using lt by auto
    have e2: "drop (Suc pos) buffer = [] \<longleftrightarrow> pos = length buffer - 1" using lt by auto
    show ?thesis unfolding d e1 e2 using lt by auto
  qed
  show ?thesis
  proof (cases "sv_find buffer TABLE_KEY_SPLIT")
    case None
    then have "TABLE_KEY_SPLIT \<notin> set buffer"
      using sv_find_None [of buffer TABLE_KEY_SPLIT] by simp
    from none [OF this] None show ?thesis by simp
  next
    case (Some pos)
    then have "TABLE_KEY_SPLIT \<in> set buffer"
      using sv_find_None [of buffer TABLE_KEY_SPLIT] by simp
    then show ?thesis using Some some [OF Some] by auto
  qed
qed

theorem decode_fails_iff_malformed_witness:
  "StateKeyResolver_decode ''table'' = Inl InvalidStateKey
   \<and> StateKeyResolver_decode '':key'' = Inl InvalidStateKey
   \<and> StateKeyResolver_decode ''table:'' = Inl InvalidStateKey
   \<and> StateKeyResolver_decode ''table:key'' = Inr (''table'', ''key'')"
  using decode_fails_iff_malformed [of "''table''"]
    decode_fails_iff_malformed [of "'':key''"]
    decode_fails_iff_malformed [of "''table:''"]
    decode_fails_iff_malformed [of "''table:key''"]
  by (simp add: TABLE_KEY_SPLIT_def)

text \<open>
  C10: decoding splits at the first separator, so the round trip holds for every
  non-empty key, also one that contains separator bytes, provided the table is
  non-empty and free of the separator.
\<close>

theorem decode_encode_roundtrip_any_key:
  assumes "table \<noteq> []" and "key \<noteq> []" and "TABLE_KEY_SPLIT \<notin> set table"
  shows "StateKeyResolver_decode (StateKeyResolver_encode (table, key)) = Inr (table, key)"
  using assms by (simp add: StateKeyResolver_encode_def decode_split)

theorem decode_encode_roundtrip_any_key_witness:
  "''t'' \<noteq> [] \<and> ''a:b:'' \<noteq> [] \<and> TABLE_KEY_SPLIT \<notin> set ''t''
   \<and> TABLE_KEY_SPLIT \<in> set ''a:b:''
   \<and> StateKeyResolver_decode (StateKeyResolver_encode (''t'', ''a:b:'')) = Inr (''t'', ''a:b:'')"
  using decode_encode_roundtrip_any_key [of "''t''" "''a:b:''"]
  by (simp add: TABLE_KEY_SPLIT_def)

section \<open>Properties of the rollbackable storage\<close>

lemma undo_short: "length rs \<le> n \<Longrightarrow> undo n rs m = (rs, m)"
  by (cases rs) auto

lemma undo_undo:
  "n \<le> n1 \<Longrightarrow> (case undo n1 rs m of (rs1, m1) \<Rightarrow> undo n rs1 m1) = undo n rs m"
  by (induction rs arbitrary: m) auto

lemma undo_length: "length (fst (undo n rs m)) \<le> length rs"
  by (induction rs arbitrary: m) (auto simp: le_SucI)

lemma rollback_current: "rollback (current s) s = s"
  by (simp add: rollback_def current_def undo_short)

lemma rollback_write_one: "n \<le> current s \<Longrightarrow> rollback n (write_one k v s) = rollback n s"
  by (simp add: rollback_def write_one_def current_def)

lemma rollback_rollback: "n \<le> n1 \<Longrightarrow> rollback n (rollback n1 s) = rollback n s"
  using undo_undo [of n n1 "m_records s" "m_storage s"]
  by (simp add: rollback_def split: prod.splits)

lemma extends_refl: "extends s s"
  by (simp add: extends_def rollback_current)

lemma extends_current: "extends s0 s \<Longrightarrow> current s0 \<le> current s"
  using undo_length [of "current s0" "m_records s" "m_storage s"]
  by (auto simp: extends_def rollback_def current_def split: prod.splits)

lemma extends_write_one: "extends s0 s \<Longrightarrow> extends s0 (write_one k v s)"
  using extends_current [of s0 s] by (simp add: extends_def rollback_write_one)

lemma extends_trans: "extends s0 s1 \<Longrightarrow> extends s1 s2 \<Longrightarrow> extends s0 s2"
  using extends_current [of s0 s1] rollback_rollback [of "current s0" "current s1" s2]
  by (simp add: extends_def)

lemma write_one_storage:
  "m_storage (write_one k v s) = (m_storage s)(k \<mapsto> v)"
  by (simp add: write_one_def)

section \<open>Every host method only adds to the write history\<close>

lemma executor_okD:
  "executor_ok ex \<Longrightarrow> ex h sh = Some (out, h1, sh1) \<Longrightarrow>
     extends (m_rollbackableStorage sh) (m_rollbackableStorage sh1)"
  unfolding executor_ok_def by blast

lemma set_slot_extends:
  "extends s0 (m_rollbackableStorage sh) \<Longrightarrow> extends s0 (m_rollbackableStorage (set_slot h key v sh))"
  by (simp add: set_slot_def extends_write_one)

lemma setCode_extends:
  "extends s0 (m_rollbackableStorage sh) \<Longrightarrow> extends s0 (m_rollbackableStorage (setCode h ch c sh))"
  by (simp add: setCode_def Let_def extends_write_one)

lemma externalCall_extends:
  assumes "executor_ok ex" and "externalCall ex h message sh = Some (out, h1, sh1)"
  shows "extends (m_rollbackableStorage sh) (m_rollbackableStorage sh1)"
  using assms(2)
  by (auto simp: externalCall_def Let_def extends_refl
      split: option.splits sum.splits if_splits prod.splits
      dest!: executor_okD [OF assms(1)])

lemma run_interp_extends:
  assumes "executor_ok ex"
  shows "extends s0 (m_rollbackableStorage sh) \<Longrightarrow> run_interp ex t h sh = Some (out, h1, sh1)
    \<Longrightarrow> extends s0 (m_rollbackableStorage sh1)"
proof (induction t arbitrary: h sh)
  case (Call_set key v k)
  from Call_set.prems(2) have "run_interp ex k h (set_slot h key v sh) = Some (out, h1, sh1)"
    by simp
  from Call_set.IH [OF set_slot_extends [OF Call_set.prems(1)] this] show ?case .
next
  case (Call_blockHash n k)
  then show ?case by (simp add: blockHash_def)
next
  case (Call_externalCall message k)
  from Call_externalCall.prems(2) show ?case
  proof (cases "externalCall ex h message sh")
    case None
    with Call_externalCall.prems(2) show ?thesis by simp
  next
    case (Some r)
    obtain o1 h2 sh2 where r: "r = (o1, h2, sh2)" by (cases r)
    have ext: "extends s0 (m_rollbackableStorage sh2)"
      using extends_trans [OF Call_externalCall.prems(1)]
        externalCall_extends [OF assms] Some r by blast
    show ?thesis
    proof (cases o1)
      case (Inl e)
      with Some r Call_externalCall.prems(2) ext show ?thesis by simp
    next
      case (Inr res)
      with Some r Call_externalCall.prems(2) have "run_interp ex (k res) h2 sh2 = Some (out, h1, sh1)"
        by simp
      from Call_externalCall.IH [OF rangeI ext this] show ?thesis .
    qed
  qed
qed (simp_all, (blast intro: rangeI)+)

lemma create_ok: "executor_ok ex \<Longrightarrow> executor_ok (create ex)"
  unfolding executor_ok_def [of "create ex"]
proof (intro allI impI)
  fix h sh out h1 sh1
  assume ok: "executor_ok ex" and c: "create ex h sh = Some (out, h1, sh1)"
  show "extends (m_rollbackableStorage sh) (m_rollbackableStorage sh1)"
  proof (cases "run_interp ex (m_vmFactory h (input_data (m_message h)) (m_message h)) h sh")
    case None
    with c show ?thesis by (simp add: create_def)
  next
    case (Some r)
    obtain o1 h2 sh2 where r: "r = (o1, h2, sh2)" by (cases r)
    have ext: "extends (m_rollbackableStorage sh) (m_rollbackableStorage sh2)"
      using run_interp_extends [OF ok extends_refl] Some r by blast
    then have rb: "rollback (current (m_rollbackableStorage sh)) (m_rollbackableStorage sh2)
                 = m_rollbackableStorage sh"
      by (simp add: extends_def)
    show ?thesis using c Some r ext rb
      by (auto simp: create_def setCode_code_def setCode_extends extends_refl
          split: sum.splits if_splits)
  qed
qed

lemma call_ok: "executor_ok ex \<Longrightarrow> executor_ok (call ex)"
  unfolding executor_ok_def [of "call ex"]
proof (intro allI impI)
  fix h sh out h1 sh1
  assume ok: "executor_ok ex" and c: "call ex h sh = Some (out, h1, sh1)"
  show "extends (m_rollbackableStorage sh) (m_rollbackableStorage sh1)"
  proof (cases "code h (code_address (m_message h)) sh")
    case None
    with c show ?thesis by (simp add: call_def extends_refl)
  next
    case (Some codeEntry)
    show ?thesis
    proof (cases "run_interp ex (m_vmFactory h codeEntry (m_message h)) h sh")
      case None
      with c Some show ?thesis by (auto simp: call_def extends_refl split: if_splits)
    next
      case (Some r)
      obtain o1 h2 sh2 where r: "r = (o1, h2, sh2)" by (cases r)
      have ext: "extends (m_rollbackableStorage sh) (m_rollbackableStorage sh2)"
        using run_interp_extends [OF ok extends_refl] Some r by blast
      then have rb: "rollback (current (m_rollbackableStorage sh)) (m_rollbackableStorage sh2)
                   = m_rollbackableStorage sh"
        by (simp add: extends_def)
      show ?thesis using c \<open>code h (code_address (m_message h)) sh = Some codeEntry\<close> Some r ext rb
        by (auto simp: call_def extends_refl split: sum.splits if_splits)
    qed
  qed
qed

lemma execute_ok: "executor_ok ex \<Longrightarrow> executor_ok (execute ex)"
  using create_ok [of ex] call_ok [of ex]
  by (simp add: executor_ok_def execute_def)

lemma execute_depth_ok: "executor_ok (execute_depth n)"
proof (induction n)
  case 0
  show ?case by (simp add: executor_ok_def)
next
  case (Suc n)
  then show ?case by (simp add: execute_ok)
qed

lemma rollback_after_run:
  assumes "run_interp (execute_depth n) t h sh = Some (out, h1, sh1)"
  shows "rollback (current (m_rollbackableStorage sh)) (m_rollbackableStorage sh1)
           = m_rollbackableStorage sh"
  using run_interp_extends [OF execute_depth_ok extends_refl assms]
  by (simp add: extends_def)

text \<open>An execution changes nothing of its host but the log list.\<close>

lemma externalCall_host:
  "externalCall ex h message sh = Some (out, h1, sh1) \<Longrightarrow> h1 = h\<lparr>m_logs := m_logs h1\<rparr>"
  by (auto simp: externalCall_def Let_def
      split: option.splits sum.splits if_splits prod.splits)

lemma run_interp_host:
  "run_interp ex t h sh = Some (out, h1, sh1) \<Longrightarrow> h1 = h\<lparr>m_logs := m_logs h1\<rparr>"
proof (induction t arbitrary: h sh)
  case (Call_log topics d k)
  from Call_log.IH [of "log topics d h" sh] Call_log.prems
  have "h1 = (log topics d h)\<lparr>m_logs := m_logs h1\<rparr>" by simp
  then show ?case by (simp add: log_def)
next
  case (Call_suicide k)
  then show ?case by (simp add: suicide_def)
next
  case (Call_blockHash n k)
  then show ?case by (simp add: blockHash_def)
next
  case (Call_externalCall message k)
  show ?case
  proof (cases "externalCall ex h message sh")
    case None
    with Call_externalCall.prems show ?thesis by simp
  next
    case (Some r)
    obtain o1 h2 sh2 where r: "r = (o1, h2, sh2)" by (cases r)
    from externalCall_host Some r have h2: "h2 = h\<lparr>m_logs := m_logs h2\<rparr>" by blast
    show ?thesis
    proof (cases o1)
      case (Inl e)
      with Some r Call_externalCall.prems h2 show ?thesis by simp
    next
      case (Inr res)
      with Some r Call_externalCall.prems have "run_interp ex (k res) h2 sh2 = Some (out, h1, sh1)"
        by simp
      from Call_externalCall.IH [OF rangeI this] have "h1 = h2\<lparr>m_logs := m_logs h1\<rparr>" .
      with h2 have "h1 = (h\<lparr>m_logs := m_logs h2\<rparr>)\<lparr>m_logs := m_logs h1\<rparr>" by simp
      then show ?thesis by simp
    qed
  qed
qed (simp_all, (blast intro: rangeI)+)

section \<open>The steps of a nested dispatch\<close>

lemma externalCall_precompiled:
  assumes "0 < fromBigEndian (code_address message)"
    and "fromBigEndian (code_address message) < MAX_PRECOMPILED_ADDRESS"
    and "m_precompiledManager h (fromBigEndian (code_address message)) = Some p"
  shows "externalCall ex h message sh = Some (Inr (p message), h, sh)"
  using assms by (simp add: externalCall_def)

lemma HostContext_new_message:
  "HostContext_new g vmf bh message origin ctx pm sh = Inr child \<Longrightarrow>
     m_message child = message \<and> m_logs child = [] \<and> m_globals child = g"
  by (auto simp: HostContext_new_def split: sum.splits prod.splits)

lemma HostContext_new_throws:
  "HostContext_new g vmf bh message origin ctx pm sh =
     Inl e \<longleftrightarrow> kind message = EVMC_CREATE2 \<and> e = RuntimeError ''Unimplement''"
  by (auto simp: HostContext_new_def getMyContractTable_def Let_def
      split: sum.splits prod.splits evmc_call_kind.splits)

lemma externalCall_child:
  assumes "\<not> (0 < fromBigEndian (code_address message)
              \<and> fromBigEndian (code_address message) < MAX_PRECOMPILED_ADDRESS
              \<and> m_precompiledManager h (fromBigEndian (code_address message)) \<noteq> None)"
    and "HostContext_new (m_globals h) (m_vmFactory h) (m_blockHeader h)
           (if kind message = EVMC_CREATE \<and> sender message = EMPTY_ADDRESS
            then message\<lparr>sender := m_newContractAddress h\<rparr> else message)
           (m_origin h) (m_contextID h) (m_precompiledManager h) (sh\<lparr>m_seq := m_seq sh + 1\<rparr>) = c"
  shows "externalCall ex h message sh =
           (case c of
              Inl e \<Rightarrow> Some (Inl e, h, sh\<lparr>m_seq := m_seq sh + 1\<rparr>)
            | Inr child \<Rightarrow>
                (case ex child (sh\<lparr>m_seq := m_seq sh + 1\<rparr>) of
                   None \<Rightarrow> None
                 | Some (Inl e, child1, sh2) \<Rightarrow> Some (Inl e, h, sh2)
                 | Some (Inr result, child1, sh2) \<Rightarrow>
                     Some (Inr result,
                           h\<lparr>m_logs := m_logs h @
                                (if status_code result = EVMC_SUCCESS then m_logs child1 else [])\<rparr>,
                           sh2)))"
proof -
  have pre: "(if 0 < fromBigEndian (code_address message)
                 \<and> fromBigEndian (code_address message) < MAX_PRECOMPILED_ADDRESS
              then m_precompiledManager h (fromBigEndian (code_address message)) else None) = None"
    using assms(1) by auto
  show ?thesis
    unfolding externalCall_def Let_def pre assms(2)
    by (auto split: sum.splits option.splits prod.splits)
qed

lemma externalCall_dispatch:
  assumes "\<not> (0 < fromBigEndian (code_address message)
              \<and> fromBigEndian (code_address message) < MAX_PRECOMPILED_ADDRESS
              \<and> m_precompiledManager h (fromBigEndian (code_address message)) \<noteq> None)"
    and "kind message \<noteq> EVMC_CREATE2"
  shows "\<exists>child.
           HostContext_new (m_globals h) (m_vmFactory h) (m_blockHeader h)
             (if kind message = EVMC_CREATE \<and> sender message = EMPTY_ADDRESS
              then message\<lparr>sender := m_newContractAddress h\<rparr> else message)
             (m_origin h) (m_contextID h) (m_precompiledManager h) (sh\<lparr>m_seq := m_seq sh + 1\<rparr>)
           = Inr child
         \<and> m_message child =
             (if kind message = EVMC_CREATE \<and> sender message = EMPTY_ADDRESS
              then message\<lparr>sender := m_newContractAddress h\<rparr> else message)
         \<and> m_logs child = []
         \<and> (\<forall>ex. externalCall ex h message sh =
               (case ex child (sh\<lparr>m_seq := m_seq sh + 1\<rparr>) of
                  None \<Rightarrow> None
                | Some (Inl e, child1, sh2) \<Rightarrow> Some (Inl e, h, sh2)
                | Some (Inr result, child1, sh2) \<Rightarrow>
                    Some (Inr result,
                          h\<lparr>m_logs := m_logs h @
                               (if status_code result = EVMC_SUCCESS then m_logs child1 else [])\<rparr>,
                          sh2)))"
proof -
  let ?m = "if kind message = EVMC_CREATE \<and> sender message = EMPTY_ADDRESS
            then message\<lparr>sender := m_newContractAddress h\<rparr> else message"
  let ?c = "HostContext_new (m_globals h) (m_vmFactory h) (m_blockHeader h) ?m
             (m_origin h) (m_contextID h) (m_precompiledManager h) (sh\<lparr>m_seq := m_seq sh + 1\<rparr>)"
  have k: "kind ?m \<noteq> EVMC_CREATE2" using assms(2) by simp
  obtain child where child: "?c = Inr child"
  proof (cases ?c)
    case (Inl e)
    then have "kind ?m = EVMC_CREATE2"
      unfolding HostContext_new_throws by blast
    with k show ?thesis by blast
  next
    case (Inr c)
    with that show ?thesis by blast
  qed
  from HostContext_new_message [OF child]
  have m: "m_message child = ?m" "m_logs child = []" by blast+
  have "externalCall ex h message sh =
               (case ex child (sh\<lparr>m_seq := m_seq sh + 1\<rparr>) of
                  None \<Rightarrow> None
                | Some (Inl e, child1, sh2) \<Rightarrow> Some (Inl e, h, sh2)
                | Some (Inr result, child1, sh2) \<Rightarrow>
                    Some (Inr result,
                          h\<lparr>m_logs := m_logs h @
                               (if status_code result = EVMC_SUCCESS then m_logs child1 else [])\<rparr>,
                          sh2))" for ex
    using externalCall_child [OF assms(1) child, of ex] by simp
  with child m show ?thesis by blast
qed

section \<open>Code storage, stated on the key-value view\<close>

lemma setCode_storage:
  "m_storage (m_rollbackableStorage (setCode h codeHash c sh)) =
     (let s = m_storage (m_rollbackableStorage sh)
      in (if s (m_codeTable h, codeHash) = None then s((m_codeTable h, codeHash) \<mapsto> c) else s)
           ((m_myContractTable h, ACCOUNT_CODE_HASH (m_globals h)) \<mapsto> codeHash))"
  by (simp add: setCode_def Let_def existsOne_def read_one_def write_one_storage)

lemma setCodeAndABI_storage:
  "m_storage (m_rollbackableStorage (setCodeAndABI h c abi sh)) =
     (let s1 = m_storage (m_rollbackableStorage (setCode h (g_hashImpl (m_globals h) c) c sh))
      in if s1 (m_abiTable h, g_hashImpl (m_globals h) c) = None
         then s1((m_abiTable h, g_hashImpl (m_globals h) c) \<mapsto> abi) else s1)"
  by (simp add: setCodeAndABI_def Let_def read_one_def write_one_storage split: option.splits)

lemma setCode_records:
  "map fst (m_records (m_rollbackableStorage (setCode h codeHash c sh))) =
     (m_myContractTable h, ACCOUNT_CODE_HASH (m_globals h))
     # (if m_storage (m_rollbackableStorage sh) (m_codeTable h, codeHash) = None
        then [(m_codeTable h, codeHash)] else [])
     @ map fst (m_records (m_rollbackableStorage sh))"
  by (simp add: setCode_def Let_def existsOne_def read_one_def write_one_def)

lemma setCodeAndABI_records:
  "map fst (m_records (m_rollbackableStorage (setCodeAndABI h c abi sh))) =
     (if m_storage (m_rollbackableStorage (setCode h (g_hashImpl (m_globals h) c) c sh))
           (m_abiTable h, g_hashImpl (m_globals h) c) = None
      then [(m_abiTable h, g_hashImpl (m_globals h) c)] else [])
     @ map fst (m_records (m_rollbackableStorage (setCode h (g_hashImpl (m_globals h) c) c sh)))"
  by (simp add: setCodeAndABI_def Let_def read_one_def write_one_def split: option.splits)

section \<open>Facts of the example world\<close>

lemma zero_address: "replicate 20 (CHR 0x00) =
  [CHR 0x00, CHR 0x00, CHR 0x00, CHR 0x00, CHR 0x00, CHR 0x00, CHR 0x00, CHR 0x00, CHR 0x00, CHR 0x00,
   CHR 0x00, CHR 0x00, CHR 0x00, CHR 0x00, CHR 0x00, CHR 0x00, CHR 0x00, CHR 0x00, CHR 0x00, CHR 0x00]"
  by (simp add: eval_nat_numeral)

lemmas ex_defs = ex_globals_def ex_result_def ex_handler_def ex_vmFactory_def ex_message_def ex_header_def
  ex_precompiled_def ex_address_def ex_storage_def ex_shared_def ex_host_def
  EMPTY_ADDRESS_def zero_address

lemma ex_call_host_fields:
  "m_precompiledManager ex_call_host = ex_precompiled"
  "m_newContractAddress ex_call_host = EMPTY_ADDRESS"
  "m_logs ex_call_host = []"
  "m_globals ex_call_host = ex_globals"
  "m_myContractTable ex_call_host = ''/apps/AAAAAAAAAAAAAAAAAAAA''"
  by (simp_all add: ex_call_host_def ex_host_def)

lemma ex_create_host_fields:
  "m_precompiledManager ex_create_host = ex_precompiled"
  "m_newContractAddress ex_create_host = ''10_1_0..............''"
  "m_logs ex_create_host = []"
  "m_globals ex_create_host = ex_globals"
  "m_myContractTable ex_create_host = ''/apps/10_1_0..............''"
  "m_codeTable ex_create_host = ''s_code_binary''"
  "m_abiTable ex_create_host = ''s_contract_abi''"
  by (simp_all add: ex_create_host_def ex_host_def)

lemma ex_call_new:
  "HostContext_new ex_globals ex_vmFactory ex_header (ex_message EVMC_CALL '''' ex_address)
     ex_address 1 ex_precompiled ex_shared
   = Inr ex_call_host"
  by (simp add: HostContext_new_def getMyContractTable_def getTableNameID_def
      ex_call_host_def ex_defs)

lemma ex_create_new:
  "HostContext_new ex_globals ex_vmFactory ex_header (ex_message EVMC_CREATE ''deploy'' EMPTY_ADDRESS)
     ex_address 1 ex_precompiled ex_shared
   = Inr ex_create_host"
  by (simp add: HostContext_new_def getMyContractTable_def getTableNameID_def Let_def
      format_int_def format_nat.simps ex_create_host_def ex_defs)

lemma ex_child_new:
  "HostContext_new (m_globals ex_call_host) (m_vmFactory ex_call_host) (m_blockHeader ex_call_host)
     (ex_message EVMC_CALL '''' ex_address) (m_origin ex_call_host) (m_contextID ex_call_host)
     (m_precompiledManager ex_call_host) (ex_shared\<lparr>m_seq := m_seq ex_shared + 1\<rparr>)
   = Inr ex_call_host"
  by (simp add: HostContext_new_def getMyContractTable_def getTableNameID_def
      ex_call_host_def ex_defs)

lemma ex_child_run:
  "execute_depth 1 ex_call_host (ex_shared\<lparr>m_seq := m_seq ex_shared + 1\<rparr>)
   = Some (Inr (ex_result 2 ''reason''), log [] ''event'' ex_call_host,
           ex_shared\<lparr>m_seq := m_seq ex_shared + 1\<rparr>)"
proof -
  let ?sh = "ex_shared\<lparr>m_seq := m_seq ex_shared + 1\<rparr>"
  have c: "code ex_call_host (code_address (m_message ex_call_host)) ?sh = Some ''revert''"
    by (simp add: code_def read_one_def getTableNameID_def ex_call_host_def ex_defs)
  have r: "run_interp (execute_depth 0) (m_vmFactory ex_call_host ''revert'' (m_message ex_call_host))
             ex_call_host ?sh
           = Some (Inr (ex_result 2 ''reason''), log [] ''event'' ex_call_host,
                   set_slot ex_call_host ''slot'' ''v'' ?sh)"
    by (simp add: ex_call_host_def ex_host_def ex_vmFactory_def)
  have s: "status_code (ex_result 2 ''reason'') \<noteq> 0" by (simp add: ex_result_def)
  have e: "(set_slot ex_call_host ''slot'' ''v'' ?sh)
             \<lparr>m_rollbackableStorage := m_rollbackableStorage ?sh\<rparr> = ?sh"
    by (simp add: set_slot_def)
  have "call (execute_depth 0) ex_call_host ?sh
          = Some (Inr (ex_result 2 ''reason''), log [] ''event'' ex_call_host, ?sh)"
    unfolding call_def c using r s rollback_after_run [OF r] e by simp
  moreover have "kind (m_message ex_call_host) = EVMC_CALL"
    by (simp add: ex_call_host_def ex_host_def ex_message_def)
  ultimately show ?thesis
    using One_nat_def execute_depth.simps by (simp add: execute_def)
qed

lemma ex_nested_new:
  "HostContext_new (m_globals ex_call_host) (m_vmFactory ex_call_host) (m_blockHeader ex_call_host)
     (ex_message EVMC_CREATE ''deploy'' EMPTY_ADDRESS) (m_origin ex_call_host)
     (m_contextID ex_call_host) (m_precompiledManager ex_call_host)
     (ex_shared\<lparr>m_seq := m_seq ex_shared + 1\<rparr>)
   = Inr ex_nested_host"
  by (simp add: HostContext_new_def getMyContractTable_def getTableNameID_def Let_def
      format_int_def format_nat.simps ex_call_host_def ex_nested_host_def ex_defs)

lemma ex_nested_run:
  "execute_depth 1 ex_nested_host (ex_shared\<lparr>m_seq := m_seq ex_shared + 1\<rparr>)
   = Some (Inr ((ex_result 0 ''runtime'')\<lparr>create_address := ''10_1_1..............''\<rparr>),
           log [] ''second'' (log [] ''first'' ex_nested_host),
           setCode_code ex_nested_host ''runtime''
             (set_slot ex_nested_host ''slot'' ''v'' (ex_shared\<lparr>m_seq := m_seq ex_shared + 1\<rparr>)))"
proof -
  let ?sh = "ex_shared\<lparr>m_seq := m_seq ex_shared + 1\<rparr>"
  have r: "run_interp (execute_depth 0)
             (m_vmFactory ex_nested_host (input_data (m_message ex_nested_host))
                (m_message ex_nested_host))
             ex_nested_host ?sh
           = Some (Inr (ex_result 0 ''runtime''),
                   log [] ''second'' (log [] ''first'' ex_nested_host),
                   set_slot ex_nested_host ''slot'' ''v'' ?sh)"
    by (simp add: ex_nested_host_def ex_host_def ex_vmFactory_def ex_message_def)
  have "create (execute_depth 0) ex_nested_host ?sh
        = Some (Inr ((ex_result 0 ''runtime'')\<lparr>create_address := ''10_1_1..............''\<rparr>),
           log [] ''second'' (log [] ''first'' ex_nested_host),
           setCode_code ex_nested_host ''runtime'' (set_slot ex_nested_host ''slot'' ''v'' ?sh))"
    unfolding create_def Let_def r
    by (simp add: ex_result_def log_def setCode_code_def setCode_def
        ex_nested_host_def ex_host_def)
  moreover have "kind (m_message ex_nested_host) = EVMC_CREATE"
    by (simp add: ex_nested_host_def ex_host_def ex_message_def)
  ultimately show ?thesis
    using One_nat_def execute_depth.simps by (simp add: execute_def)
qed

section \<open>Failed executions are rolled back\<close>

text \<open>
  C1: in \<open>create\<close> and in \<open>call\<close> alike, when the interpreter returns a result whose
  status code is not success, the host returns this very result, with the host's logs
  as the run left them, and the storage is again the storage before the interpreter was
  invoked, key-value view and write history both: no write of the failed run, whether
  made by the interpreter through \<open>set\<close> or by a nested host, remains. Only the call
  sequence counter keeps the value the run gave it.
\<close>

theorem failure_rolls_back:
  assumes "run_interp (execute_depth n) (m_vmFactory h c (m_message h)) h sh
             = Some (Inr result, h1, sh1)"
    and "status_code result \<noteq> 0"
  shows "(c = input_data (m_message h) \<longrightarrow>
            create (execute_depth n) h sh = Some (Inr result, h1, sh\<lparr>m_seq := m_seq sh1\<rparr>))
       \<and> (code h (code_address (m_message h)) sh = Some c \<and> c \<noteq> [] \<longrightarrow>
            call (execute_depth n) h sh = Some (Inr result, h1, sh\<lparr>m_seq := m_seq sh1\<rparr>))"
proof -
  have "extends (m_rollbackableStorage sh) (m_rollbackableStorage sh1)"
    using run_interp_extends [OF execute_depth_ok extends_refl assms(1)] .
  then have rb: "rollback (current (m_rollbackableStorage sh)) (m_rollbackableStorage sh1)
               = m_rollbackableStorage sh"
    by (simp add: extends_def)
  show ?thesis using assms rb by (auto simp: create_def call_def)
qed

text \<open>
  In the example world the program \<open>revert\<close> writes a slot before it fails, so the
  storage inside the run differs from the one before, and after \<open>create\<close> and after
  \<open>call\<close> the shared state is the initial one.
\<close>

theorem failure_rolls_back_witness:
  "(let h = ex_host (ex_message EVMC_CREATE ''revert'' EMPTY_ADDRESS)
              ''/apps/10_1_0..............'' ''10_1_0..............'';
        h1 = log [] ''event'' h;
        sh1 = set_slot h ''slot'' ''v'' ex_shared
    in run_interp (execute_depth 0) (m_vmFactory h ''revert'' (m_message h)) h ex_shared
         = Some (Inr (ex_result 2 ''reason''), h1, sh1)
       \<and> status_code (ex_result 2 ''reason'') \<noteq> 0
       \<and> ''revert'' = input_data (m_message h)
       \<and> m_rollbackableStorage sh1 \<noteq> ex_storage
       \<and> create (execute_depth 0) h ex_shared = Some (Inr (ex_result 2 ''reason''), h1, ex_shared))
   \<and> (let h = ex_host (ex_message EVMC_CALL '''' ex_address) ''/apps/AAAAAAAAAAAAAAAAAAAA'' EMPTY_ADDRESS;
          h1 = log [] ''event'' h;
          sh1 = set_slot h ''slot'' ''v'' ex_shared
      in run_interp (execute_depth 0) (m_vmFactory h ''revert'' (m_message h)) h ex_shared
           = Some (Inr (ex_result 2 ''reason''), h1, sh1)
         \<and> status_code (ex_result 2 ''reason'') \<noteq> 0
         \<and> code h (code_address (m_message h)) ex_shared = Some ''revert''
         \<and> m_rollbackableStorage sh1 \<noteq> ex_storage
         \<and> call (execute_depth 0) h ex_shared = Some (Inr (ex_result 2 ''reason''), h1, ex_shared))"
proof -
  let ?h = "ex_host (ex_message EVMC_CREATE ''revert'' EMPTY_ADDRESS)
              ''/apps/10_1_0..............'' ''10_1_0..............''"
  let ?g = "ex_host (ex_message EVMC_CALL '''' ex_address) ''/apps/AAAAAAAAAAAAAAAAAAAA'' EMPTY_ADDRESS"
  have r1: "run_interp (execute_depth 0) (m_vmFactory ?h ''revert'' (m_message ?h)) ?h ex_shared
         = Some (Inr (ex_result 2 ''reason''), log [] ''event'' ?h, set_slot ?h ''slot'' ''v'' ex_shared)"
    by (simp add: ex_host_def ex_vmFactory_def)
  have r2: "run_interp (execute_depth 0) (m_vmFactory ?g ''revert'' (m_message ?g)) ?g ex_shared
         = Some (Inr (ex_result 2 ''reason''), log [] ''event'' ?g, set_slot ?g ''slot'' ''v'' ex_shared)"
    by (simp add: ex_host_def ex_vmFactory_def)
  have st: "status_code (ex_result 2 ''reason'') \<noteq> 0"
    by (simp add: ex_result_def)
  have c2: "code ?g (code_address (m_message ?g)) ex_shared = Some ''revert''"
    by (simp add: code_def read_one_def getTableNameID_def ex_defs)
  have n1: "m_rollbackableStorage (set_slot ?h ''slot'' ''v'' ex_shared) \<noteq> ex_storage"
    by (simp add: set_slot_def write_one_def ex_shared_def ex_storage_def)
  have n2: "m_rollbackableStorage (set_slot ?g ''slot'' ''v'' ex_shared) \<noteq> ex_storage"
    by (simp add: set_slot_def write_one_def ex_shared_def ex_storage_def)
  have s: "\<And>h. ex_shared\<lparr>m_seq := m_seq (set_slot h ''slot'' ''v'' ex_shared)\<rparr> = ex_shared"
    by (simp add: set_slot_def)
  have i1: "''revert'' = input_data (m_message ?h)"
    by (simp add: ex_host_def ex_message_def)
  show ?thesis
    using failure_rolls_back [OF r1 st] failure_rolls_back [OF r2 st] r1 r2 st c2 n1 n2 s i1
    by (simp add: Let_def)
qed

section \<open>Contract creation\<close>

text \<open>
  C2, amended: a host constructed for a CREATE message takes as the new contract's address the
  first 20 bytes of the hash of the text \<open>number_contextID_seq\<close>, the three integers in
  decimal, with the counter's value at construction; its table is the table of that
  address. When the interpreter then succeeds, \<open>create\<close> returns the interpreter's
  result with exactly this address as created address, the code-hash field of the new
  contract's table holds the hash of the output, and the code table holds under that
  hash the output, or what it held there before; so unless the code table already held
  other bytes under this hash, the code of the new address is the output.
\<close>

theorem create_address_and_code:
  assumes "kind message = EVMC_CREATE"
  shows "\<exists>h. HostContext_new g vmFactory blockHeader message origin contextID pm sh0 = Inr h
     \<and> m_newContractAddress h =
         take 20 (g_hashImpl g (format_int (number blockHeader) @ ''_'' @ format_int contextID
                                  @ ''_'' @ format_int (sint (m_seq sh0))))
     \<and> m_myContractTable h = getTableNameID g (m_newContractAddress h)
     \<and> (\<forall>ex sh result h1 sh1.
           run_interp ex (vmFactory (input_data message) message) h sh = Some (Inr result, h1, sh1)
           \<and> status_code result = 0 \<longrightarrow>
           (\<exists>sh2. create ex h sh
                    = Some (Inr (result\<lparr>create_address := m_newContractAddress h\<rparr>), h1, sh2)
              \<and> m_storage (m_rollbackableStorage sh2) (m_myContractTable h, ACCOUNT_CODE_HASH g)
                  = Some (g_hashImpl g (output_data result))
              \<and> (SYS_CODE_BINARY g \<noteq> m_myContractTable h \<longrightarrow>
                   m_storage (m_rollbackableStorage sh2)
                     (SYS_CODE_BINARY g, g_hashImpl g (output_data result))
                   = (case m_storage (m_rollbackableStorage sh1)
                             (SYS_CODE_BINARY g, g_hashImpl g (output_data result)) of
                        None \<Rightarrow> Some (output_data result) | Some old \<Rightarrow> Some old))
              \<and> (SYS_CODE_BINARY g \<noteq> m_myContractTable h
                  \<and> (m_storage (m_rollbackableStorage sh1)
                        (SYS_CODE_BINARY g, g_hashImpl g (output_data result)) = None
                     \<or> m_storage (m_rollbackableStorage sh1)
                          (SYS_CODE_BINARY g, g_hashImpl g (output_data result))
                        = Some (output_data result)) \<longrightarrow>
                   code h (m_newContractAddress h) sh2 = Some (output_data result))))"
proof -
  let ?a = "take 20 (g_hashImpl g (format_int (number blockHeader) @ ''_'' @ format_int contextID
                                  @ ''_'' @ format_int (sint (m_seq sh0))))"
  let ?h = "\<lparr>m_globals = g, m_vmFactory = vmFactory, m_blockHeader = blockHeader,
             m_message = message, m_origin = origin, m_contextID = contextID,
             m_precompiledManager = pm,
             m_myContractTable = getTableNameID g ?a,
             m_codeTable = SYS_CODE_BINARY g,
             m_abiTable = SYS_CONTRACT_ABI g,
             m_newContractAddress = ?a,
             m_logs = []\<rparr>"
  have new: "HostContext_new g vmFactory blockHeader message origin contextID pm sh0 = Inr ?h"
    using assms by (simp add: HostContext_new_def getMyContractTable_def Let_def)
  have run: "\<exists>sh2. create ex ?h sh
                    = Some (Inr (result\<lparr>create_address := m_newContractAddress ?h\<rparr>), h1, sh2)
              \<and> m_storage (m_rollbackableStorage sh2) (m_myContractTable ?h, ACCOUNT_CODE_HASH g)
                  = Some (g_hashImpl g (output_data result))
              \<and> (SYS_CODE_BINARY g \<noteq> m_myContractTable ?h \<longrightarrow>
                   m_storage (m_rollbackableStorage sh2)
                     (SYS_CODE_BINARY g, g_hashImpl g (output_data result))
                   = (case m_storage (m_rollbackableStorage sh1)
                             (SYS_CODE_BINARY g, g_hashImpl g (output_data result)) of
                        None \<Rightarrow> Some (output_data result) | Some old \<Rightarrow> Some old))
              \<and> (SYS_CODE_BINARY g \<noteq> m_myContractTable ?h
                  \<and> (m_storage (m_rollbackableStorage sh1)
                        (SYS_CODE_BINARY g, g_hashImpl g (output_data result)) = None
                     \<or> m_storage (m_rollbackableStorage sh1)
                          (SYS_CODE_BINARY g, g_hashImpl g (output_data result))
                        = Some (output_data result)) \<longrightarrow>
                   code ?h (m_newContractAddress ?h) sh2 = Some (output_data result))"
    if r: "run_interp ex (vmFactory (input_data message) message) ?h sh = Some (Inr result, h1, sh1)"
      and ok: "status_code result = 0"
    for ex sh result h1 sh1
  proof -
    let ?sh2 = "setCode ?h (g_hashImpl g (output_data result)) (output_data result) sh1"
    from run_interp_host [OF r] have h1: "h1 = ?h\<lparr>m_logs := m_logs h1\<rparr>" .
    have sc: "setCode_code h1 (output_data result) sh1 = ?sh2"
      by (subst h1) (simp add: setCode_code_def setCode_def)
    have na: "m_newContractAddress h1 = ?a"
      by (subst h1) simp
    have c: "create ex ?h sh = Some (Inr (result\<lparr>create_address := ?a\<rparr>), h1, ?sh2)"
      using r ok sc na by (simp add: create_def)
    have f: "m_storage (m_rollbackableStorage ?sh2) (getTableNameID g ?a, ACCOUNT_CODE_HASH g)
               = Some (g_hashImpl g (output_data result))"
      by (simp add: setCode_storage Let_def)
    have t: "m_storage (m_rollbackableStorage ?sh2)
               (SYS_CODE_BINARY g, g_hashImpl g (output_data result))
             = (case m_storage (m_rollbackableStorage sh1)
                       (SYS_CODE_BINARY g, g_hashImpl g (output_data result)) of
                  None \<Rightarrow> Some (output_data result) | Some old \<Rightarrow> Some old)"
      if "SYS_CODE_BINARY g \<noteq> getTableNameID g ?a"
      using that by (auto simp: setCode_storage Let_def split: option.splits)
    have cd: "code ?h ?a ?sh2 = Some (output_data result)"
      if "SYS_CODE_BINARY g \<noteq> getTableNameID g ?a"
        and "m_storage (m_rollbackableStorage sh1)
               (SYS_CODE_BINARY g, g_hashImpl g (output_data result)) = None
             \<or> m_storage (m_rollbackableStorage sh1)
                 (SYS_CODE_BINARY g, g_hashImpl g (output_data result))
               = Some (output_data result)"
      using that(2) f t [OF that(1)] by (auto simp: code_def read_one_def)
    show ?thesis using c f t cd by simp
  qed
  show ?thesis
    apply (rule exI [of _ ?h])
    using new run by simp
qed

theorem create_address_and_code_witness:
  "kind (ex_message EVMC_CREATE ''deploy'' EMPTY_ADDRESS) = EVMC_CREATE
   \<and> HostContext_new ex_globals ex_vmFactory ex_header
        (ex_message EVMC_CREATE ''deploy'' EMPTY_ADDRESS) ex_address 1 ex_precompiled ex_shared
      = Inr ex_create_host
   \<and> m_newContractAddress ex_create_host = ''10_1_0..............''
   \<and> run_interp (execute_depth 0)
        (ex_vmFactory (input_data (ex_message EVMC_CREATE ''deploy'' EMPTY_ADDRESS))
           (ex_message EVMC_CREATE ''deploy'' EMPTY_ADDRESS))
        ex_create_host ex_shared
      = Some (Inr (ex_result 0 ''runtime''),
              log [] ''second'' (log [] ''first'' ex_create_host),
              set_slot ex_create_host ''slot'' ''v'' ex_shared)
   \<and> status_code (ex_result 0 ''runtime'') = 0
   \<and> SYS_CODE_BINARY ex_globals \<noteq> m_myContractTable ex_create_host
   \<and> m_storage (m_rollbackableStorage (set_slot ex_create_host ''slot'' ''v'' ex_shared))
        (SYS_CODE_BINARY ex_globals, g_hashImpl ex_globals (output_data (ex_result 0 ''runtime'')))
      = None
   \<and> (\<exists>sh2. create (execute_depth 0) ex_create_host ex_shared
              = Some (Inr ((ex_result 0 ''runtime'')\<lparr>create_address := ''10_1_0..............''\<rparr>),
                      log [] ''second'' (log [] ''first'' ex_create_host), sh2)
            \<and> m_storage (m_rollbackableStorage sh2) (''/apps/10_1_0..............'', ''codeHash'')
                = Some ''runtime.........................''
            \<and> code ex_create_host ''10_1_0..............'' sh2 = Some ''runtime'')"
proof -
  let ?m0 = "ex_message EVMC_CREATE ''deploy'' EMPTY_ADDRESS"
  have k: "kind ?m0 = EVMC_CREATE" by (simp add: ex_message_def)
  have r: "run_interp (execute_depth 0) (ex_vmFactory (input_data ?m0) ?m0) ex_create_host ex_shared
           = Some (Inr (ex_result 0 ''runtime''),
                   log [] ''second'' (log [] ''first'' ex_create_host),
                   set_slot ex_create_host ''slot'' ''v'' ex_shared)"
    by (simp add: ex_vmFactory_def ex_message_def)
  have s: "status_code (ex_result 0 ''runtime'') = 0" by (simp add: ex_result_def)
  have t: "SYS_CODE_BINARY ex_globals \<noteq> m_myContractTable ex_create_host"
    by (simp add: ex_create_host_fields ex_globals_def)
  have v: "m_storage (m_rollbackableStorage (set_slot ex_create_host ''slot'' ''v'' ex_shared))
             (SYS_CODE_BINARY ex_globals, g_hashImpl ex_globals (output_data (ex_result 0 ''runtime'')))
           = None"
    by (simp add: set_slot_def write_one_def ex_create_host_fields ex_defs)
  have g: "g_hashImpl ex_globals (output_data (ex_result 0 ''runtime''))
             = ''runtime.........................''"
    "ACCOUNT_CODE_HASH ex_globals = ''codeHash''"
    "output_data (ex_result 0 ''runtime'') = ''runtime''"
    "g_hashImpl ex_globals ''runtime'' = ''runtime.........................''"
    by (simp_all add: ex_globals_def ex_result_def)
  from create_address_and_code [OF k, of ex_globals ex_vmFactory ex_header ex_address 1
      ex_precompiled ex_shared]
  obtain h where new: "HostContext_new ex_globals ex_vmFactory ex_header ?m0 ex_address 1
                         ex_precompiled ex_shared = Inr h"
    and run: "\<And>ex sh result h1 sh1.
        run_interp ex (ex_vmFactory (input_data ?m0) ?m0) h sh = Some (Inr result, h1, sh1) \<Longrightarrow>
        status_code result = 0 \<Longrightarrow>
        \<exists>sh2. create ex h sh = Some (Inr (result\<lparr>create_address := m_newContractAddress h\<rparr>), h1, sh2)
          \<and> m_storage (m_rollbackableStorage sh2) (m_myContractTable h, ACCOUNT_CODE_HASH ex_globals)
              = Some (g_hashImpl ex_globals (output_data result))
          \<and> (SYS_CODE_BINARY ex_globals \<noteq> m_myContractTable h
              \<and> (m_storage (m_rollbackableStorage sh1)
                    (SYS_CODE_BINARY ex_globals, g_hashImpl ex_globals (output_data result)) = None
                 \<or> m_storage (m_rollbackableStorage sh1)
                      (SYS_CODE_BINARY ex_globals, g_hashImpl ex_globals (output_data result))
                    = Some (output_data result)) \<longrightarrow>
               code h (m_newContractAddress h) sh2 = Some (output_data result))"
    by blast
  from new ex_create_new have h: "h = ex_create_host" by simp
  from run [unfolded h, OF r s] t v
  have c: "\<exists>sh2. create (execute_depth 0) ex_create_host ex_shared
              = Some (Inr ((ex_result 0 ''runtime'')\<lparr>create_address := ''10_1_0..............''\<rparr>),
                      log [] ''second'' (log [] ''first'' ex_create_host), sh2)
            \<and> m_storage (m_rollbackableStorage sh2) (''/apps/10_1_0..............'', ''codeHash'')
                = Some ''runtime.........................''
            \<and> code ex_create_host ''10_1_0..............'' sh2 = Some ''runtime''"
    by (simp add: g ex_create_host_fields)
  from k ex_create_new ex_create_host_fields(2) r s t v c show ?thesis by blast
qed

text \<open>
  Without the exception for an entry already present the statement fails: in a state
  whose code table holds other bytes under the hash of the output, \<open>create\<close>
  succeeds with the derived address as created address, and the code then looked up for
  that address is the old bytes, not the output.
\<close>

theorem create_keeps_stale_code_counterexample:
  "kind (ex_message EVMC_CREATE ''deploy'' EMPTY_ADDRESS) = EVMC_CREATE
   \<and> HostContext_new ex_globals ex_vmFactory ex_header
        (ex_message EVMC_CREATE ''deploy'' EMPTY_ADDRESS) ex_address 1 ex_precompiled ex_stale_shared
      = Inr ex_create_host
   \<and> create (execute_depth 0) ex_create_host ex_stale_shared
      = Some (Inr ((ex_result 0 ''runtime'')\<lparr>create_address := ''10_1_0..............''\<rparr>),
              log [] ''second'' (log [] ''first'' ex_create_host),
              setCode_code ex_create_host ''runtime''
                (set_slot ex_create_host ''slot'' ''v'' ex_stale_shared))
   \<and> status_code ((ex_result 0 ''runtime'')\<lparr>create_address := ''10_1_0..............''\<rparr>)
      = EVMC_SUCCESS
   \<and> output_data ((ex_result 0 ''runtime'')\<lparr>create_address := ''10_1_0..............''\<rparr>)
      = ''runtime''
   \<and> code ex_create_host ''10_1_0..............''
        (setCode_code ex_create_host ''runtime''
           (set_slot ex_create_host ''slot'' ''v'' ex_stale_shared))
      = Some ''other''
   \<and> ''other'' \<noteq> ''runtime''"
proof -
  let ?m0 = "ex_message EVMC_CREATE ''deploy'' EMPTY_ADDRESS"
  have k: "kind ?m0 = EVMC_CREATE" by (simp add: ex_message_def)
  have new: "HostContext_new ex_globals ex_vmFactory ex_header ?m0 ex_address 1 ex_precompiled
               ex_stale_shared = Inr ex_create_host"
    by (simp add: HostContext_new_def getMyContractTable_def getTableNameID_def Let_def
        format_int_def format_nat.simps ex_create_host_def ex_stale_shared_def ex_defs)
  have r: "run_interp (execute_depth 0)
             (m_vmFactory ex_create_host (input_data (m_message ex_create_host))
                (m_message ex_create_host))
             ex_create_host ex_stale_shared
           = Some (Inr (ex_result 0 ''runtime''),
                   log [] ''second'' (log [] ''first'' ex_create_host),
                   set_slot ex_create_host ''slot'' ''v'' ex_stale_shared)"
    by (simp add: ex_create_host_def ex_host_def ex_vmFactory_def ex_message_def)
  have c: "create (execute_depth 0) ex_create_host ex_stale_shared
      = Some (Inr ((ex_result 0 ''runtime'')\<lparr>create_address := ''10_1_0..............''\<rparr>),
              log [] ''second'' (log [] ''first'' ex_create_host),
              setCode_code ex_create_host ''runtime''
                (set_slot ex_create_host ''slot'' ''v'' ex_stale_shared))"
    unfolding create_def Let_def r
    by (simp add: ex_result_def log_def setCode_code_def setCode_def
        ex_create_host_def ex_host_def)
  have s: "status_code ((ex_result 0 ''runtime'')\<lparr>create_address := ''10_1_0..............''\<rparr>)
             = EVMC_SUCCESS"
    and o: "output_data ((ex_result 0 ''runtime'')\<lparr>create_address := ''10_1_0..............''\<rparr>)
             = ''runtime''"
    by (simp_all add: ex_result_def EVMC_SUCCESS_def)
  have d: "code ex_create_host ''10_1_0..............''
        (setCode_code ex_create_host ''runtime''
           (set_slot ex_create_host ''slot'' ''v'' ex_stale_shared))
      = Some ''other''"
    by (simp add: code_def read_one_def existsOne_def write_one_def setCode_code_def setCode_def
        set_slot_def getTableNameID_def Let_def ex_create_host_def ex_host_def
        ex_stale_shared_def ex_globals_def)
  have n: "''other'' \<noteq> ''runtime''" by simp
  from k new c s o d n show ?thesis by blast
qed

section \<open>Calls to an address without code\<close>

text \<open>
  C3: when the code looked up for the message's code address is absent or empty,
  \<open>call\<close> throws \<open>NotFoundCodeError\<close>, which is an exception and no result with a
  status, and leaves host and shared state, the storage with them, as they were; so
  does \<open>execute\<close> for every message that is no creation.
\<close>

theorem call_without_code_throws:
  assumes "code h (code_address (m_message h)) sh = None
           \<or> (\<exists>codeEntry. code h (code_address (m_message h)) sh = Some codeEntry
                 \<and> length codeEntry = 0)"
  shows "call ex h sh = Some (Inl NotFoundCodeError, h, sh)
       \<and> (kind (m_message h) \<noteq> EVMC_CREATE \<and> kind (m_message h) \<noteq> EVMC_CREATE2 \<longrightarrow>
            execute ex h sh = Some (Inl NotFoundCodeError, h, sh))"
  using assms by (auto simp: call_def execute_def)

theorem call_without_code_throws_witness:
  "code (ex_host (ex_message EVMC_CALL '''' ex_other) ''/apps/BBBBBBBBBBBBBBBBBBBB'' EMPTY_ADDRESS)
      (code_address (ex_message EVMC_CALL '''' ex_other)) ex_shared = None
   \<and> call (execute_depth 1)
        (ex_host (ex_message EVMC_CALL '''' ex_other) ''/apps/BBBBBBBBBBBBBBBBBBBB'' EMPTY_ADDRESS)
        ex_shared
      = Some (Inl NotFoundCodeError,
              ex_host (ex_message EVMC_CALL '''' ex_other) ''/apps/BBBBBBBBBBBBBBBBBBBB'' EMPTY_ADDRESS,
              ex_shared)
   \<and> code (ex_host (ex_message EVMC_CALL '''' ex_empty) ''/apps/CCCCCCCCCCCCCCCCCCCC'' EMPTY_ADDRESS)
      (code_address (ex_message EVMC_CALL '''' ex_empty)) ex_shared = Some []
   \<and> execute (execute_depth 1)
        (ex_host (ex_message EVMC_CALL '''' ex_empty) ''/apps/CCCCCCCCCCCCCCCCCCCC'' EMPTY_ADDRESS)
        ex_shared
      = Some (Inl NotFoundCodeError,
              ex_host (ex_message EVMC_CALL '''' ex_empty) ''/apps/CCCCCCCCCCCCCCCCCCCC'' EMPTY_ADDRESS,
              ex_shared)"
proof -
  let ?b = "ex_host (ex_message EVMC_CALL '''' ex_other) ''/apps/BBBBBBBBBBBBBBBBBBBB'' EMPTY_ADDRESS"
  let ?c = "ex_host (ex_message EVMC_CALL '''' ex_empty) ''/apps/CCCCCCCCCCCCCCCCCCCC'' EMPTY_ADDRESS"
  have b: "code ?b (code_address (m_message ?b)) ex_shared = None"
    by (simp add: code_def read_one_def getTableNameID_def ex_defs ex_other_def)
  have c: "code ?c (code_address (m_message ?c)) ex_shared = Some []"
    by (simp add: code_def read_one_def getTableNameID_def ex_defs ex_empty_def)
  have k: "kind (m_message ?c) \<noteq> EVMC_CREATE \<and> kind (m_message ?c) \<noteq> EVMC_CREATE2"
    by (simp add: ex_host_def ex_message_def)
  have mb: "m_message ?b = ex_message EVMC_CALL '''' ex_other"
    and mc: "m_message ?c = ex_message EVMC_CALL '''' ex_empty"
    by (simp_all add: ex_host_def)
  from call_without_code_throws [of ?b ex_shared "execute_depth 1"] b
  have 1: "call (execute_depth 1) ?b ex_shared = Some (Inl NotFoundCodeError, ?b, ex_shared)"
    by blast
  from call_without_code_throws [of ?c ex_shared "execute_depth 1"] c k
  have 2: "execute (execute_depth 1) ?c ex_shared = Some (Inl NotFoundCodeError, ?c, ex_shared)"
    by simp
  from b c 1 2 show ?thesis unfolding mb mc by blast
qed

section \<open>The code storage procedure\<close>

text \<open>
  C6: \<open>setCode\<close> leaves under the code hash in the code table the given code if the
  table had no entry there and the old entry otherwise, sets the code-hash field of the
  host's own table to the hash whatever it held, and changes no other key; it writes the
  field always and the code-table key only when it was absent. \<open>setCodeAndABI\<close> does
  the same for the hash of the code and stores the ABI under that hash in the ABI table
  only when that table had no entry there. Storing the same code for a second contract
  adds no key to the code table and leaves its entry as the first left it. The three
  tables are assumed to have different names.
\<close>

theorem setCode_effect:
  assumes "m_codeTable h \<noteq> m_myContractTable h"
    and "m_abiTable h \<noteq> m_myContractTable h"
    and "m_abiTable h \<noteq> m_codeTable h"
  shows "m_storage (m_rollbackableStorage (setCode h codeHash c sh)) (m_codeTable h, codeHash) =
           (case m_storage (m_rollbackableStorage sh) (m_codeTable h, codeHash) of
              None \<Rightarrow> Some c | Some old \<Rightarrow> Some old)
       \<and> m_storage (m_rollbackableStorage (setCode h codeHash c sh))
           (m_myContractTable h, ACCOUNT_CODE_HASH (m_globals h)) = Some codeHash
       \<and> (\<forall>k. k \<noteq> (m_codeTable h, codeHash)
               \<and> k \<noteq> (m_myContractTable h, ACCOUNT_CODE_HASH (m_globals h))
             \<longrightarrow> m_storage (m_rollbackableStorage (setCode h codeHash c sh)) k
                 = m_storage (m_rollbackableStorage sh) k)
       \<and> m_storage (m_rollbackableStorage (setCodeAndABI h c abi sh))
           (m_codeTable h, g_hashImpl (m_globals h) c) =
           (case m_storage (m_rollbackableStorage sh) (m_codeTable h, g_hashImpl (m_globals h) c) of
              None \<Rightarrow> Some c | Some old \<Rightarrow> Some old)
       \<and> m_storage (m_rollbackableStorage (setCodeAndABI h c abi sh))
           (m_myContractTable h, ACCOUNT_CODE_HASH (m_globals h)) = Some (g_hashImpl (m_globals h) c)
       \<and> m_storage (m_rollbackableStorage (setCodeAndABI h c abi sh))
           (m_abiTable h, g_hashImpl (m_globals h) c) =
           (case m_storage (m_rollbackableStorage sh) (m_abiTable h, g_hashImpl (m_globals h) c) of
              None \<Rightarrow> Some abi | Some old \<Rightarrow> Some old)
       \<and> map fst (m_records (m_rollbackableStorage (setCode h codeHash c sh))) =
           (m_myContractTable h, ACCOUNT_CODE_HASH (m_globals h))
           # (if m_storage (m_rollbackableStorage sh) (m_codeTable h, codeHash) = None
              then [(m_codeTable h, codeHash)] else [])
           @ map fst (m_records (m_rollbackableStorage sh))
       \<and> map fst (m_records (m_rollbackableStorage (setCodeAndABI h c abi sh))) =
           (if m_storage (m_rollbackableStorage sh) (m_abiTable h, g_hashImpl (m_globals h) c) = None
            then [(m_abiTable h, g_hashImpl (m_globals h) c)] else [])
           @ map fst (m_records (m_rollbackableStorage
                (setCode h (g_hashImpl (m_globals h) c) c sh)))
       \<and> (m_globals h' = m_globals h \<and> m_codeTable h' = m_codeTable h
            \<and> m_codeTable h \<noteq> m_myContractTable h' \<longrightarrow>
           {key. m_storage (m_rollbackableStorage (setCode_code h' c (setCode_code h c sh)))
                   (m_codeTable h, key) \<noteq> None}
           = insert (g_hashImpl (m_globals h) c)
               {key. m_storage (m_rollbackableStorage sh) (m_codeTable h, key) \<noteq> None}
           \<and> m_storage (m_rollbackableStorage (setCode_code h' c (setCode_code h c sh)))
                (m_codeTable h, g_hashImpl (m_globals h) c)
             = m_storage (m_rollbackableStorage (setCode_code h c sh))
                (m_codeTable h, g_hashImpl (m_globals h) c))"
proof -
  have a: "m_storage (m_rollbackableStorage (setCode h codeHash c sh)) (m_codeTable h, codeHash) =
           (case m_storage (m_rollbackableStorage sh) (m_codeTable h, codeHash) of
              None \<Rightarrow> Some c | Some old \<Rightarrow> Some old)" for codeHash
    using assms(1) by (auto simp: setCode_storage Let_def split: option.splits)
  have b: "m_storage (m_rollbackableStorage (setCode h codeHash c sh))
           (m_myContractTable h, ACCOUNT_CODE_HASH (m_globals h)) = Some codeHash" for codeHash
    by (simp add: setCode_storage Let_def)
  have c: "\<forall>k. k \<noteq> (m_codeTable h, codeHash)
               \<and> k \<noteq> (m_myContractTable h, ACCOUNT_CODE_HASH (m_globals h))
             \<longrightarrow> m_storage (m_rollbackableStorage (setCode h codeHash c sh)) k
                 = m_storage (m_rollbackableStorage sh) k"
    by (simp add: setCode_storage Let_def)
  have d: "m_storage (m_rollbackableStorage (setCodeAndABI h c abi sh))
           (m_codeTable h, g_hashImpl (m_globals h) c) =
           (case m_storage (m_rollbackableStorage sh) (m_codeTable h, g_hashImpl (m_globals h) c) of
              None \<Rightarrow> Some c | Some old \<Rightarrow> Some old)"
    using assms(3) a [of "g_hashImpl (m_globals h) c"]
    by (simp add: setCodeAndABI_storage Let_def)
  have e: "m_storage (m_rollbackableStorage (setCodeAndABI h c abi sh))
           (m_myContractTable h, ACCOUNT_CODE_HASH (m_globals h)) = Some (g_hashImpl (m_globals h) c)"
    using assms(2) b [of "g_hashImpl (m_globals h) c"]
    by (simp add: setCodeAndABI_storage Let_def)
  have f: "m_storage (m_rollbackableStorage (setCodeAndABI h c abi sh))
           (m_abiTable h, g_hashImpl (m_globals h) c) =
           (case m_storage (m_rollbackableStorage sh) (m_abiTable h, g_hashImpl (m_globals h) c) of
              None \<Rightarrow> Some abi | Some old \<Rightarrow> Some old)"
    using assms(2,3)
    by (auto simp: setCodeAndABI_storage setCode_storage Let_def split: option.splits)
  have g: "{key. m_storage (m_rollbackableStorage (setCode_code h' c (setCode_code h c sh)))
                   (m_codeTable h, key) \<noteq> None}
           = insert (g_hashImpl (m_globals h) c)
               {key. m_storage (m_rollbackableStorage sh) (m_codeTable h, key) \<noteq> None}
           \<and> m_storage (m_rollbackableStorage (setCode_code h' c (setCode_code h c sh)))
                (m_codeTable h, g_hashImpl (m_globals h) c)
             = m_storage (m_rollbackableStorage (setCode_code h c sh))
                (m_codeTable h, g_hashImpl (m_globals h) c)"
    if "m_globals h' = m_globals h" "m_codeTable h' = m_codeTable h"
       "m_codeTable h \<noteq> m_myContractTable h'"
    using that assms(1)
    by (auto simp: setCode_storage setCode_code_def Let_def split: option.splits)
  have r1: "map fst (m_records (m_rollbackableStorage (setCode h codeHash c sh))) =
           (m_myContractTable h, ACCOUNT_CODE_HASH (m_globals h))
           # (if m_storage (m_rollbackableStorage sh) (m_codeTable h, codeHash) = None
              then [(m_codeTable h, codeHash)] else [])
           @ map fst (m_records (m_rollbackableStorage sh))"
    by (rule setCode_records)
  have "m_storage (m_rollbackableStorage (setCode h (g_hashImpl (m_globals h) c) c sh))
          (m_abiTable h, g_hashImpl (m_globals h) c)
        = m_storage (m_rollbackableStorage sh) (m_abiTable h, g_hashImpl (m_globals h) c)"
    using assms(2,3) by (simp add: setCode_storage Let_def)
  then have r2: "map fst (m_records (m_rollbackableStorage (setCodeAndABI h c abi sh))) =
           (if m_storage (m_rollbackableStorage sh) (m_abiTable h, g_hashImpl (m_globals h) c) = None
            then [(m_abiTable h, g_hashImpl (m_globals h) c)] else [])
           @ map fst (m_records (m_rollbackableStorage
                (setCode h (g_hashImpl (m_globals h) c) c sh)))"
    using setCodeAndABI_records [of h c abi sh] by simp
  show ?thesis using a b c d e f r1 r2 g by blast
qed

theorem setCode_effect_witness:
  "m_codeTable ex_create_host \<noteq> m_myContractTable ex_create_host
   \<and> m_abiTable ex_create_host \<noteq> m_myContractTable ex_create_host
   \<and> m_abiTable ex_create_host \<noteq> m_codeTable ex_create_host
   \<and> m_storage ex_storage (''s_code_binary'', ''runtime.........................'') = None
   \<and> m_storage (m_rollbackableStorage
        (setCode ex_create_host ''runtime.........................'' ''runtime'' ex_shared))
        (''s_code_binary'', ''runtime.........................'') = Some ''runtime''
   \<and> m_storage ex_storage (''s_code_binary'', ''revert..........................'') = Some ''revert''
   \<and> m_storage (m_rollbackableStorage
        (setCode ex_create_host ''revert..........................'' ''other'' ex_shared))
        (''s_code_binary'', ''revert..........................'') = Some ''revert''
   \<and> m_storage (m_rollbackableStorage
        (setCode ex_create_host ''runtime.........................'' ''runtime'' ex_shared))
        (''/apps/10_1_0..............'', ''codeHash'') = Some ''runtime.........................''
   \<and> m_storage (m_rollbackableStorage (setCodeAndABI ex_create_host ''runtime'' ''abi'' ex_shared))
        (''s_contract_abi'', ''runtime.........................'') = Some ''abi''
   \<and> m_globals ex_nested_host = m_globals ex_create_host
   \<and> m_codeTable ex_nested_host = m_codeTable ex_create_host
   \<and> m_codeTable ex_create_host \<noteq> m_myContractTable ex_nested_host
   \<and> m_storage (m_rollbackableStorage
        (setCode_code ex_nested_host ''runtime'' (setCode_code ex_create_host ''runtime'' ex_shared)))
        (''s_code_binary'', ''runtime.........................'')
      = m_storage (m_rollbackableStorage (setCode_code ex_create_host ''runtime'' ex_shared))
          (''s_code_binary'', ''runtime.........................'')"
proof -
  have h: "m_codeTable ex_create_host \<noteq> m_myContractTable ex_create_host"
    "m_abiTable ex_create_host \<noteq> m_myContractTable ex_create_host"
    "m_abiTable ex_create_host \<noteq> m_codeTable ex_create_host"
    by (simp_all add: ex_create_host_fields)
  have n: "m_globals ex_nested_host = m_globals ex_create_host
           \<and> m_codeTable ex_nested_host = m_codeTable ex_create_host
           \<and> m_codeTable ex_create_host \<noteq> m_myContractTable ex_nested_host"
    by (simp add: ex_create_host_def ex_nested_host_def ex_host_def)
  have s: "m_storage (m_rollbackableStorage ex_shared) = m_storage ex_storage"
    by (simp add: ex_shared_def)
  have v: "m_storage ex_storage (''s_code_binary'', ''runtime.........................'') = None"
    "m_storage ex_storage (''s_code_binary'', ''revert..........................'') = Some ''revert''"
    "m_storage ex_storage (''s_contract_abi'', ''runtime.........................'') = None"
    by (simp_all add: ex_storage_def)
  have g: "g_hashImpl (m_globals ex_create_host) ''runtime'' = ''runtime.........................''"
    "ACCOUNT_CODE_HASH (m_globals ex_create_host) = ''codeHash''"
    by (simp_all add: ex_create_host_fields ex_globals_def)
  from setCode_effect [OF h, of "''runtime.........................''" "''runtime''" ex_shared
      "''abi''" ex_nested_host] n
  have 1: "m_storage (m_rollbackableStorage
        (setCode ex_create_host ''runtime.........................'' ''runtime'' ex_shared))
        (''s_code_binary'', ''runtime.........................'') = Some ''runtime''"
    and 2: "m_storage (m_rollbackableStorage
        (setCode ex_create_host ''runtime.........................'' ''runtime'' ex_shared))
        (''/apps/10_1_0..............'', ''codeHash'') = Some ''runtime.........................''"
    and 3: "m_storage (m_rollbackableStorage (setCodeAndABI ex_create_host ''runtime'' ''abi'' ex_shared))
        (''s_contract_abi'', ''runtime.........................'') = Some ''abi''"
    and 4: "m_storage (m_rollbackableStorage
        (setCode_code ex_nested_host ''runtime'' (setCode_code ex_create_host ''runtime'' ex_shared)))
        (''s_code_binary'', ''runtime.........................'')
      = m_storage (m_rollbackableStorage (setCode_code ex_create_host ''runtime'' ex_shared))
          (''s_code_binary'', ''runtime.........................'')"
    unfolding g s by (simp_all add: v ex_create_host_fields)
  from setCode_effect [OF h, of "''revert..........................''" "''other''" ex_shared]
  have 5: "m_storage (m_rollbackableStorage
        (setCode ex_create_host ''revert..........................'' ''other'' ex_shared))
        (''s_code_binary'', ''revert..........................'') = Some ''revert''"
    unfolding s by (simp add: v ex_create_host_fields)
  from h v(1,2) 1 2 3 4 5 n show ?thesis by blast
qed

section \<open>Nested dispatch: the call sequence counter\<close>

text \<open>
  C7, amended: a nested message whose code address is a number greater than zero and
  below the ceiling, and for which the registry has a handler, gets the handler's result
  with host, storage and counter unchanged, whatever the executor of child hosts is: none
  is constructed or run. For every other nested message the counter is incremented once
  first: a CREATE2 message then fails in the child's constructor, with the counter
  incremented; any other message has its child constructed from, and executed on, the
  shared state with the incremented counter and the storage untouched, and the outcome
  and the final shared state of \<open>externalCall\<close> are those of the child's execution.
\<close>

theorem externalCall_sequence_counter:
  "(0 < fromBigEndian (code_address message)
      \<and> fromBigEndian (code_address message) < MAX_PRECOMPILED_ADDRESS
      \<and> m_precompiledManager h (fromBigEndian (code_address message)) = Some p
     \<longrightarrow> (\<forall>ex. externalCall ex h message sh = Some (Inr (p message), h, sh)))
   \<and> (\<not> (0 < fromBigEndian (code_address message)
           \<and> fromBigEndian (code_address message) < MAX_PRECOMPILED_ADDRESS
           \<and> m_precompiledManager h (fromBigEndian (code_address message)) \<noteq> None)
       \<longrightarrow>
        (kind message = EVMC_CREATE2 \<longrightarrow>
           (\<forall>ex. externalCall ex h message sh
                  = Some (Inl (RuntimeError ''Unimplement''), h, sh\<lparr>m_seq := m_seq sh + 1\<rparr>)))
        \<and> (kind message \<noteq> EVMC_CREATE2 \<longrightarrow>
             (\<exists>child.
                HostContext_new (m_globals h) (m_vmFactory h) (m_blockHeader h) (m_message child)
                  (m_origin h) (m_contextID h) (m_precompiledManager h)
                  (sh\<lparr>m_seq := m_seq sh + 1\<rparr>) = Inr child
                \<and> (m_message child = message
                    \<or> m_message child = message\<lparr>sender := m_newContractAddress h\<rparr>)
                \<and> (\<forall>ex. case ex child (sh\<lparr>m_seq := m_seq sh + 1\<rparr>) of
                           None \<Rightarrow> externalCall ex h message sh = None
                         | Some (out, child1, sh2) \<Rightarrow>
                             (\<exists>h1. externalCall ex h message sh = Some (out, h1, sh2))))))"
proof (intro conjI impI)
  assume "0 < fromBigEndian (code_address message)
      \<and> fromBigEndian (code_address message) < MAX_PRECOMPILED_ADDRESS
      \<and> m_precompiledManager h (fromBigEndian (code_address message)) = Some p"
  then show "\<forall>ex. externalCall ex h message sh = Some (Inr (p message), h, sh)"
    by (simp add: externalCall_precompiled)
next
  assume n: "\<not> (0 < fromBigEndian (code_address message)
           \<and> fromBigEndian (code_address message) < MAX_PRECOMPILED_ADDRESS
           \<and> m_precompiledManager h (fromBigEndian (code_address message)) \<noteq> None)"
    and k: "kind message = EVMC_CREATE2"
  have "HostContext_new (m_globals h) (m_vmFactory h) (m_blockHeader h)
           (if kind message = EVMC_CREATE \<and> sender message = EMPTY_ADDRESS
            then message\<lparr>sender := m_newContractAddress h\<rparr> else message)
           (m_origin h) (m_contextID h) (m_precompiledManager h) (sh\<lparr>m_seq := m_seq sh + 1\<rparr>)
        = Inl (RuntimeError ''Unimplement'')"
    unfolding HostContext_new_throws using k by simp
  from externalCall_child [OF n this]
  show "\<forall>ex. externalCall ex h message sh
                  = Some (Inl (RuntimeError ''Unimplement''), h, sh\<lparr>m_seq := m_seq sh + 1\<rparr>)"
    by simp
next
  assume n: "\<not> (0 < fromBigEndian (code_address message)
           \<and> fromBigEndian (code_address message) < MAX_PRECOMPILED_ADDRESS
           \<and> m_precompiledManager h (fromBigEndian (code_address message)) \<noteq> None)"
    and k: "kind message \<noteq> EVMC_CREATE2"
  from externalCall_dispatch [OF n k, of sh] obtain child where
    c: "HostContext_new (m_globals h) (m_vmFactory h) (m_blockHeader h)
             (if kind message = EVMC_CREATE \<and> sender message = EMPTY_ADDRESS
              then message\<lparr>sender := m_newContractAddress h\<rparr> else message)
             (m_origin h) (m_contextID h) (m_precompiledManager h) (sh\<lparr>m_seq := m_seq sh + 1\<rparr>)
           = Inr child"
    and m: "m_message child =
             (if kind message = EVMC_CREATE \<and> sender message = EMPTY_ADDRESS
              then message\<lparr>sender := m_newContractAddress h\<rparr> else message)"
    and e: "\<And>ex. externalCall ex h message sh =
               (case ex child (sh\<lparr>m_seq := m_seq sh + 1\<rparr>) of
                  None \<Rightarrow> None
                | Some (Inl e, child1, sh2) \<Rightarrow> Some (Inl e, h, sh2)
                | Some (Inr result, child1, sh2) \<Rightarrow>
                    Some (Inr result,
                          h\<lparr>m_logs := m_logs h @
                               (if status_code result = EVMC_SUCCESS then m_logs child1 else [])\<rparr>,
                          sh2))"
    by blast
  have 1: "HostContext_new (m_globals h) (m_vmFactory h) (m_blockHeader h) (m_message child)
                  (m_origin h) (m_contextID h) (m_precompiledManager h)
                  (sh\<lparr>m_seq := m_seq sh + 1\<rparr>) = Inr child"
    using c m by simp
  have 2: "m_message child = message
           \<or> m_message child = message\<lparr>sender := m_newContractAddress h\<rparr>"
    using m by (simp split: if_splits)
  have 3: "case ex child (sh\<lparr>m_seq := m_seq sh + 1\<rparr>) of
             None \<Rightarrow> externalCall ex h message sh = None
           | Some (out, child1, sh2) \<Rightarrow>
               (\<exists>h1. externalCall ex h message sh = Some (out, h1, sh2))" for ex
    unfolding e [of ex] by (auto split: option.splits sum.splits)
  from 1 2 3 show "\<exists>child.
                HostContext_new (m_globals h) (m_vmFactory h) (m_blockHeader h) (m_message child)
                  (m_origin h) (m_contextID h) (m_precompiledManager h)
                  (sh\<lparr>m_seq := m_seq sh + 1\<rparr>) = Inr child
                \<and> (m_message child = message
                    \<or> m_message child = message\<lparr>sender := m_newContractAddress h\<rparr>)
                \<and> (\<forall>ex. case ex child (sh\<lparr>m_seq := m_seq sh + 1\<rparr>) of
                           None \<Rightarrow> externalCall ex h message sh = None
                         | Some (out, child1, sh2) \<Rightarrow>
                             (\<exists>h1. externalCall ex h message sh = Some (out, h1, sh2)))"
    by blast
qed

theorem externalCall_sequence_counter_witness:
  "0 < fromBigEndian (code_address (ex_message EVMC_CALL ''in'' ex_one))
   \<and> fromBigEndian (code_address (ex_message EVMC_CALL ''in'' ex_one)) < MAX_PRECOMPILED_ADDRESS
   \<and> m_precompiledManager ex_call_host
        (fromBigEndian (code_address (ex_message EVMC_CALL ''in'' ex_one))) = Some ex_handler
   \<and> externalCall (execute_depth 1) ex_call_host (ex_message EVMC_CALL ''in'' ex_one) ex_shared
      = Some (Inr (ex_handler (ex_message EVMC_CALL ''in'' ex_one)), ex_call_host, ex_shared)
   \<and> fromBigEndian (code_address (ex_message EVMC_CREATE2 '''' ex_address))
        \<ge> MAX_PRECOMPILED_ADDRESS
   \<and> kind (ex_message EVMC_CREATE2 '''' ex_address) = EVMC_CREATE2
   \<and> externalCall (execute_depth 1) ex_call_host (ex_message EVMC_CREATE2 '''' ex_address) ex_shared
      = Some (Inl (RuntimeError ''Unimplement''), ex_call_host,
              ex_shared\<lparr>m_seq := m_seq ex_shared + 1\<rparr>)
   \<and> fromBigEndian (code_address (ex_message EVMC_CALL '''' ex_address))
        \<ge> MAX_PRECOMPILED_ADDRESS
   \<and> kind (ex_message EVMC_CALL '''' ex_address) \<noteq> EVMC_CREATE2
   \<and> (\<exists>h1. externalCall (execute_depth 1) ex_call_host (ex_message EVMC_CALL '''' ex_address)
              ex_shared
            = Some (Inr (ex_result 2 ''reason''), h1, ex_shared\<lparr>m_seq := m_seq ex_shared + 1\<rparr>))"
proof -
  let ?m1 = "ex_message EVMC_CALL ''in'' ex_one"
  let ?m2 = "ex_message EVMC_CREATE2 '''' ex_address"
  let ?m3 = "ex_message EVMC_CALL '''' ex_address"
  let ?sh1 = "ex_shared\<lparr>m_seq := m_seq ex_shared + 1\<rparr>"
  have a1: "fromBigEndian (code_address ?m1) = 1"
    by (simp add: fromBigEndian_def ex_message_def ex_one_def)
  have a2: "fromBigEndian (code_address ?m2) \<ge> MAX_PRECOMPILED_ADDRESS"
    and a3: "fromBigEndian (code_address ?m3) \<ge> MAX_PRECOMPILED_ADDRESS"
    by (simp_all add: fromBigEndian_def MAX_PRECOMPILED_ADDRESS_def ex_message_def ex_address_def)
  have p1: "0 < fromBigEndian (code_address ?m1)
            \<and> fromBigEndian (code_address ?m1) < MAX_PRECOMPILED_ADDRESS
            \<and> m_precompiledManager ex_call_host (fromBigEndian (code_address ?m1)) = Some ex_handler"
    unfolding a1 by (simp add: MAX_PRECOMPILED_ADDRESS_def ex_call_host_fields ex_precompiled_def)
  have k2: "kind ?m2 = EVMC_CREATE2" and k3: "kind ?m3 \<noteq> EVMC_CREATE2"
    by (simp_all add: ex_message_def)
  have n2: "\<not> (0 < fromBigEndian (code_address ?m2)
              \<and> fromBigEndian (code_address ?m2) < MAX_PRECOMPILED_ADDRESS
              \<and> m_precompiledManager ex_call_host (fromBigEndian (code_address ?m2)) \<noteq> None)"
    using a2 by simp
  have n3: "\<not> (0 < fromBigEndian (code_address ?m3)
              \<and> fromBigEndian (code_address ?m3) < MAX_PRECOMPILED_ADDRESS
              \<and> m_precompiledManager ex_call_host (fromBigEndian (code_address ?m3)) \<noteq> None)"
    using a3 by simp
  from externalCall_sequence_counter [of ?m1 ex_call_host ex_handler ex_shared] p1
  have c1: "externalCall (execute_depth 1) ex_call_host ?m1 ex_shared
              = Some (Inr (ex_handler ?m1), ex_call_host, ex_shared)"
    by blast
  from externalCall_sequence_counter [of ?m2 ex_call_host ex_handler ex_shared] n2 k2
  have c2: "externalCall (execute_depth 1) ex_call_host ?m2 ex_shared
              = Some (Inl (RuntimeError ''Unimplement''), ex_call_host, ?sh1)"
    by blast
  from externalCall_sequence_counter [of ?m3 ex_call_host ex_handler ex_shared] n3 k3
  obtain child where
    new: "HostContext_new (m_globals ex_call_host) (m_vmFactory ex_call_host)
            (m_blockHeader ex_call_host) (m_message child) (m_origin ex_call_host)
            (m_contextID ex_call_host) (m_precompiledManager ex_call_host) ?sh1 = Inr child"
    and msg: "m_message child = ?m3
              \<or> m_message child = ?m3\<lparr>sender := m_newContractAddress ex_call_host\<rparr>"
    and run: "\<And>ex. case ex child ?sh1 of
                None \<Rightarrow> externalCall ex ex_call_host ?m3 ex_shared = None
              | Some (out, child1, sh2) \<Rightarrow>
                  (\<exists>h1. externalCall ex ex_call_host ?m3 ex_shared = Some (out, h1, sh2))"
    by blast
  have "?m3\<lparr>sender := m_newContractAddress ex_call_host\<rparr> = ?m3"
    by (simp add: ex_call_host_fields ex_message_def)
  with msg have "m_message child = ?m3" by simp
  with new ex_child_new have child: "child = ex_call_host" by simp
  from run [of "execute_depth 1"] ex_child_run
  have c3: "\<exists>h1. externalCall (execute_depth 1) ex_call_host ?m3 ex_shared
                   = Some (Inr (ex_result 2 ''reason''), h1, ?sh1)"
    unfolding child by simp
  from p1 c1 a2 k2 c2 a3 k3 c3 show ?thesis by blast
qed

text \<open>
  Without the lower bound the statement fails: the code address zero is below the
  ceiling and the example registry has a handler for it, yet \<open>externalCall\<close> does not
  ask the registry, increments the counter and executes a child host, which here finds
  no code.
\<close>

theorem externalCall_address_zero_counterexample:
  "fromBigEndian (code_address (ex_message EVMC_CALL '''' EMPTY_ADDRESS)) < MAX_PRECOMPILED_ADDRESS
   \<and> m_precompiledManager ex_call_host
        (fromBigEndian (code_address (ex_message EVMC_CALL '''' EMPTY_ADDRESS))) = Some ex_handler
   \<and> externalCall (execute_depth 1) ex_call_host (ex_message EVMC_CALL '''' EMPTY_ADDRESS) ex_shared
      = Some (Inl NotFoundCodeError, ex_call_host, ex_shared\<lparr>m_seq := m_seq ex_shared + 1\<rparr>)
   \<and> m_seq ex_shared + 1 \<noteq> m_seq ex_shared"
proof -
  let ?m = "ex_message EVMC_CALL '''' EMPTY_ADDRESS"
  let ?sh1 = "ex_shared\<lparr>m_seq := m_seq ex_shared + 1\<rparr>"
  let ?child = "ex_host ?m (''/apps/'' @ EMPTY_ADDRESS) EMPTY_ADDRESS"
  have a: "fromBigEndian (code_address ?m) = 0"
    by (simp add: fromBigEndian_def ex_message_def EMPTY_ADDRESS_def zero_address)
  have p: "m_precompiledManager ex_call_host 0 = Some ex_handler"
    by (simp add: ex_call_host_fields ex_precompiled_def)
  have n: "\<not> (0 < fromBigEndian (code_address ?m)
              \<and> fromBigEndian (code_address ?m) < MAX_PRECOMPILED_ADDRESS
              \<and> m_precompiledManager ex_call_host (fromBigEndian (code_address ?m)) \<noteq> None)"
    unfolding a by simp
  have new: "HostContext_new (m_globals ex_call_host) (m_vmFactory ex_call_host)
               (m_blockHeader ex_call_host)
               (if kind ?m = EVMC_CREATE \<and> sender ?m = EMPTY_ADDRESS
                then ?m\<lparr>sender := m_newContractAddress ex_call_host\<rparr> else ?m)
               (m_origin ex_call_host) (m_contextID ex_call_host)
               (m_precompiledManager ex_call_host) ?sh1
             = Inr ?child"
    by (simp add: HostContext_new_def getMyContractTable_def getTableNameID_def
        ex_call_host_def ex_defs)
  have c: "code ?child (code_address (m_message ?child)) ?sh1 = None"
    by (simp add: code_def read_one_def getTableNameID_def ex_defs)
  have "call (execute_depth 0) ?child ?sh1 = Some (Inl NotFoundCodeError, ?child, ?sh1)"
    unfolding call_def c by simp
  moreover have "kind (m_message ?child) = EVMC_CALL"
    by (simp add: ex_host_def ex_message_def)
  ultimately have run: "execute_depth 1 ?child ?sh1 = Some (Inl NotFoundCodeError, ?child, ?sh1)"
    using One_nat_def execute_depth.simps by (simp add: execute_def)
  have e: "externalCall (execute_depth 1) ex_call_host ?m ex_shared
             = Some (Inl NotFoundCodeError, ex_call_host, ?sh1)"
    unfolding externalCall_child [OF n new] using run by simp
  have s: "m_seq ex_shared + 1 \<noteq> m_seq ex_shared"
    by (simp add: ex_shared_def)
  from a p e s show ?thesis by (simp add: MAX_PRECOMPILED_ADDRESS_def)
qed

section \<open>Nested dispatch: the sender of a nested creation\<close>

text \<open>
  C8, amended: the child of a nested dispatch is constructed for the message itself,
  except that a CREATE message whose sender is the zero address gets as sender the field
  \<open>m_newContractAddress\<close> of the dispatching host. For a host that the constructor built
  for a CREATE message this field is the address derived at construction, which is also
  the address of the host's table; for a host built for any other message it is the
  zero address, while the host's table is that of the message's recipient.
\<close>

theorem externalCall_sender:
  assumes "\<not> (0 < fromBigEndian (code_address message)
              \<and> fromBigEndian (code_address message) < MAX_PRECOMPILED_ADDRESS
              \<and> m_precompiledManager h (fromBigEndian (code_address message)) \<noteq> None)"
    and "kind message \<noteq> EVMC_CREATE2"
  shows "(\<exists>child.
            HostContext_new (m_globals h) (m_vmFactory h) (m_blockHeader h) (m_message child)
              (m_origin h) (m_contextID h) (m_precompiledManager h)
              (sh\<lparr>m_seq := m_seq sh + 1\<rparr>) = Inr child
            \<and> m_message child =
                (if kind message = EVMC_CREATE \<and> sender message = EMPTY_ADDRESS
                 then message\<lparr>sender := m_newContractAddress h\<rparr> else message)
            \<and> (\<forall>ex. case ex child (sh\<lparr>m_seq := m_seq sh + 1\<rparr>) of
                       None \<Rightarrow> externalCall ex h message sh = None
                     | Some (out, child1, sh2) \<Rightarrow>
                         (\<exists>h1. externalCall ex h message sh = Some (out, h1, sh2))))
       \<and> (HostContext_new g vmFactory blockHeader message0 origin contextID pm sh0 = Inr h \<longrightarrow>
            (kind message0 = EVMC_CREATE \<longrightarrow>
               m_newContractAddress h =
                 take 20 (g_hashImpl g (format_int (number blockHeader) @ ''_''
                            @ format_int contextID @ ''_'' @ format_int (sint (m_seq sh0))))
               \<and> m_myContractTable h = getTableNameID g (m_newContractAddress h))
            \<and> (kind message0 \<noteq> EVMC_CREATE \<longrightarrow>
                 m_newContractAddress h = EMPTY_ADDRESS
                 \<and> m_myContractTable h = getTableNameID g (recipient message0)))"
proof -
  from externalCall_dispatch [OF assms, of sh] obtain child where
    c: "HostContext_new (m_globals h) (m_vmFactory h) (m_blockHeader h)
             (if kind message = EVMC_CREATE \<and> sender message = EMPTY_ADDRESS
              then message\<lparr>sender := m_newContractAddress h\<rparr> else message)
             (m_origin h) (m_contextID h) (m_precompiledManager h) (sh\<lparr>m_seq := m_seq sh + 1\<rparr>)
           = Inr child"
    and m: "m_message child =
             (if kind message = EVMC_CREATE \<and> sender message = EMPTY_ADDRESS
              then message\<lparr>sender := m_newContractAddress h\<rparr> else message)"
    and e: "\<And>ex. externalCall ex h message sh =
               (case ex child (sh\<lparr>m_seq := m_seq sh + 1\<rparr>) of
                  None \<Rightarrow> None
                | Some (Inl e, child1, sh2) \<Rightarrow> Some (Inl e, h, sh2)
                | Some (Inr result, child1, sh2) \<Rightarrow>
                    Some (Inr result,
                          h\<lparr>m_logs := m_logs h @
                               (if status_code result = EVMC_SUCCESS then m_logs child1 else [])\<rparr>,
                          sh2))"
    by blast
  have 1: "HostContext_new (m_globals h) (m_vmFactory h) (m_blockHeader h) (m_message child)
                  (m_origin h) (m_contextID h) (m_precompiledManager h)
                  (sh\<lparr>m_seq := m_seq sh + 1\<rparr>) = Inr child"
    using c m by simp
  have 3: "case ex child (sh\<lparr>m_seq := m_seq sh + 1\<rparr>) of
             None \<Rightarrow> externalCall ex h message sh = None
           | Some (out, child1, sh2) \<Rightarrow>
               (\<exists>h1. externalCall ex h message sh = Some (out, h1, sh2))" for ex
    unfolding e [of ex] by (auto split: option.splits sum.splits)
  have 4: "(kind message0 = EVMC_CREATE \<longrightarrow>
               m_newContractAddress h =
                 take 20 (g_hashImpl g (format_int (number blockHeader) @ ''_''
                            @ format_int contextID @ ''_'' @ format_int (sint (m_seq sh0))))
               \<and> m_myContractTable h = getTableNameID g (m_newContractAddress h))
            \<and> (kind message0 \<noteq> EVMC_CREATE \<longrightarrow>
                 m_newContractAddress h = EMPTY_ADDRESS
                 \<and> m_myContractTable h = getTableNameID g (recipient message0))"
    if "HostContext_new g vmFactory blockHeader message0 origin contextID pm sh0 = Inr h"
    using that
    by (cases "kind message0")
      (auto simp: HostContext_new_def getMyContractTable_def Let_def EMPTY_ADDRESS_def)
  from 1 m 3 4 show ?thesis by blast
qed

theorem externalCall_sender_witness:
  "fromBigEndian (code_address (ex_message EVMC_CREATE ''probe'' EMPTY_ADDRESS)) = 0
   \<and> kind (ex_message EVMC_CREATE ''probe'' EMPTY_ADDRESS) \<noteq> EVMC_CREATE2
   \<and> HostContext_new ex_globals ex_vmFactory ex_header
        (ex_message EVMC_CREATE ''deploy'' EMPTY_ADDRESS) ex_address 1 ex_precompiled ex_shared
      = Inr ex_create_host
   \<and> kind (ex_message EVMC_CREATE ''deploy'' EMPTY_ADDRESS) = EVMC_CREATE
   \<and> m_newContractAddress ex_create_host = ''10_1_0..............''
   \<and> m_myContractTable ex_create_host = getTableNameID ex_globals ''10_1_0..............''
   \<and> (\<exists>child.
         HostContext_new (m_globals ex_create_host) (m_vmFactory ex_create_host)
           (m_blockHeader ex_create_host) (m_message child) (m_origin ex_create_host)
           (m_contextID ex_create_host) (m_precompiledManager ex_create_host)
           (ex_shared\<lparr>m_seq := m_seq ex_shared + 1\<rparr>) = Inr child
         \<and> m_message child
             = (ex_message EVMC_CREATE ''probe'' EMPTY_ADDRESS)\<lparr>sender := ''10_1_0..............''\<rparr>)
   \<and> HostContext_new ex_globals ex_vmFactory ex_header
        (ex_message EVMC_CALL '''' ex_address) ex_address 1 ex_precompiled ex_shared
      = Inr ex_call_host
   \<and> kind (ex_message EVMC_CALL '''' ex_address) \<noteq> EVMC_CREATE
   \<and> m_newContractAddress ex_call_host = EMPTY_ADDRESS
   \<and> m_myContractTable ex_call_host = getTableNameID ex_globals ex_address"
proof -
  let ?p = "ex_message EVMC_CREATE ''probe'' EMPTY_ADDRESS"
  let ?m0 = "ex_message EVMC_CREATE ''deploy'' EMPTY_ADDRESS"
  let ?m3 = "ex_message EVMC_CALL '''' ex_address"
  have a: "fromBigEndian (code_address ?p) = 0"
    by (simp add: fromBigEndian_def ex_message_def EMPTY_ADDRESS_def zero_address)
  have k: "kind ?p \<noteq> EVMC_CREATE2" "kind ?m0 = EVMC_CREATE" "kind ?m3 \<noteq> EVMC_CREATE"
    "kind ?p = EVMC_CREATE \<and> sender ?p = EMPTY_ADDRESS"
    by (simp_all add: ex_message_def)
  have n: "\<not> (0 < fromBigEndian (code_address ?p)
              \<and> fromBigEndian (code_address ?p) < MAX_PRECOMPILED_ADDRESS
              \<and> m_precompiledManager h (fromBigEndian (code_address ?p)) \<noteq> None)" for h
    using a by simp
  have hex: "take 20 (g_hashImpl ex_globals (format_int (number ex_header) @ ''_''
                            @ format_int 1 @ ''_'' @ format_int (sint (m_seq ex_shared))))
             = ''10_1_0..............''"
    by (simp add: format_int_def format_nat.simps ex_defs)
  from externalCall_sender [OF n k(1), of ex_create_host ex_shared ex_globals ex_vmFactory
      ex_header ?m0 ex_address 1 ex_precompiled ex_shared] ex_create_new k(2)
  have 1: "\<exists>child.
         HostContext_new (m_globals ex_create_host) (m_vmFactory ex_create_host)
           (m_blockHeader ex_create_host) (m_message child) (m_origin ex_create_host)
           (m_contextID ex_create_host) (m_precompiledManager ex_create_host)
           (ex_shared\<lparr>m_seq := m_seq ex_shared + 1\<rparr>) = Inr child
         \<and> m_message child = ?p\<lparr>sender := m_newContractAddress ex_create_host\<rparr>"
    and 2: "m_newContractAddress ex_create_host = ''10_1_0..............''"
    and 3: "m_myContractTable ex_create_host
              = getTableNameID ex_globals (m_newContractAddress ex_create_host)"
    unfolding hex using k(4) by auto
  from externalCall_sender [OF n k(1), of ex_call_host ex_shared ex_globals ex_vmFactory
      ex_header ?m3 ex_address 1 ex_precompiled ex_shared] ex_call_new k(3)
  have 4: "m_newContractAddress ex_call_host = EMPTY_ADDRESS"
    and 5: "m_myContractTable ex_call_host = getTableNameID ex_globals (recipient ?m3)"
    by auto
  have r: "recipient ?m3 = ex_address" by (simp add: ex_message_def)
  from a k(1) ex_create_new k(2) 1 2 3 ex_call_new k(3) 4 5 r show ?thesis
    by simp
qed

text \<open>
  The sender is not in every case the dispatching host's own contract address: the host
  of a call to \<open>ex_address\<close> has the table of \<open>ex_address\<close>, and a nested creation
  whose sender is the zero address runs with the zero address as sender. The code
  \<open>probe\<close> returns the sender it is run with as output.
\<close>

theorem externalCall_sender_counterexample:
  "HostContext_new ex_globals ex_vmFactory ex_header
     (ex_message EVMC_CALL '''' ex_address) ex_address 1 ex_precompiled ex_shared
   = Inr ex_call_host
   \<and> m_myContractTable ex_call_host = getTableNameID ex_globals ex_address
   \<and> kind (ex_message EVMC_CREATE ''probe'' EMPTY_ADDRESS) = EVMC_CREATE
   \<and> sender (ex_message EVMC_CREATE ''probe'' EMPTY_ADDRESS) = EMPTY_ADDRESS
   \<and> m_vmFactory ex_call_host ''probe''
        ((ex_message EVMC_CREATE ''probe'' EMPTY_ADDRESS)\<lparr>sender := ex_address\<rparr>)
      = Return (ex_result 0 ex_address)
   \<and> map_option fst
        (externalCall (execute_depth 1) ex_call_host
           (ex_message EVMC_CREATE ''probe'' EMPTY_ADDRESS) ex_shared)
      = Some (Inr ((ex_result 0 EMPTY_ADDRESS)\<lparr>create_address := ''10_1_1..............''\<rparr>))
   \<and> EMPTY_ADDRESS \<noteq> ex_address"
proof -
  let ?p = "ex_message EVMC_CREATE ''probe'' EMPTY_ADDRESS"
  let ?sh1 = "ex_shared\<lparr>m_seq := m_seq ex_shared + 1\<rparr>"
  have a: "fromBigEndian (code_address ?p) = 0"
    by (simp add: fromBigEndian_def ex_message_def EMPTY_ADDRESS_def zero_address)
  have n: "\<not> (0 < fromBigEndian (code_address ?p)
              \<and> fromBigEndian (code_address ?p) < MAX_PRECOMPILED_ADDRESS
              \<and> m_precompiledManager ex_call_host (fromBigEndian (code_address ?p)) \<noteq> None)"
    using a by simp
  have new: "HostContext_new (m_globals ex_call_host) (m_vmFactory ex_call_host)
               (m_blockHeader ex_call_host)
               (if kind ?p = EVMC_CREATE \<and> sender ?p = EMPTY_ADDRESS
                then ?p\<lparr>sender := m_newContractAddress ex_call_host\<rparr> else ?p)
               (m_origin ex_call_host) (m_contextID ex_call_host)
               (m_precompiledManager ex_call_host) ?sh1
             = Inr ex_probe_host"
    by (simp add: HostContext_new_def getMyContractTable_def getTableNameID_def Let_def
        format_int_def format_nat.simps ex_call_host_def ex_probe_host_def ex_defs)
  have r: "run_interp (execute_depth 0)
             (m_vmFactory ex_probe_host (input_data (m_message ex_probe_host))
                (m_message ex_probe_host))
             ex_probe_host ?sh1
           = Some (Inr (ex_result 0 EMPTY_ADDRESS), ex_probe_host, ?sh1)"
    by (simp add: ex_probe_host_def ex_host_def ex_vmFactory_def ex_message_def)
  have "create (execute_depth 0) ex_probe_host ?sh1
        = Some (Inr ((ex_result 0 EMPTY_ADDRESS)\<lparr>create_address := ''10_1_1..............''\<rparr>),
                ex_probe_host, setCode_code ex_probe_host EMPTY_ADDRESS ?sh1)"
    unfolding create_def Let_def r
    by (simp add: ex_result_def ex_probe_host_def ex_host_def)
  moreover have "kind (m_message ex_probe_host) = EVMC_CREATE"
    by (simp add: ex_probe_host_def ex_host_def ex_message_def)
  ultimately have run: "execute_depth 1 ex_probe_host ?sh1
        = Some (Inr ((ex_result 0 EMPTY_ADDRESS)\<lparr>create_address := ''10_1_1..............''\<rparr>),
                ex_probe_host, setCode_code ex_probe_host EMPTY_ADDRESS ?sh1)"
    using One_nat_def execute_depth.simps by (simp add: execute_def)
  have e: "map_option fst (externalCall (execute_depth 1) ex_call_host ?p ex_shared)
             = Some (Inr ((ex_result 0 EMPTY_ADDRESS)\<lparr>create_address := ''10_1_1..............''\<rparr>))"
    unfolding externalCall_child [OF n new] using run by simp
  have v: "m_vmFactory ex_call_host ''probe'' (?p\<lparr>sender := ex_address\<rparr>)
             = Return (ex_result 0 ex_address)"
    by (simp add: ex_call_host_def ex_host_def ex_vmFactory_def ex_message_def)
  have t: "m_myContractTable ex_call_host = getTableNameID ex_globals ex_address"
    by (simp add: ex_call_host_fields getTableNameID_def ex_globals_def ex_address_def)
  have k: "kind ?p = EVMC_CREATE" "sender ?p = EMPTY_ADDRESS"
    by (simp_all add: ex_message_def)
  have d: "EMPTY_ADDRESS \<noteq> ex_address"
    by (simp add: EMPTY_ADDRESS_def zero_address ex_address_def)
  from ex_call_new t k v e d show ?thesis by blast
qed

section \<open>Nested dispatch: the logs of the child\<close>

text \<open>
  C9: when the child host's execution returns a result, the dispatching host's log list
  afterwards is its list before followed by the child's log entries in their order if
  the result's status is success, and is its list before, unchanged, if the status is
  anything else; the shared state is in both cases the one the child left. When the
  child's execution throws, the list is unchanged as well.
\<close>

theorem externalCall_logs:
  assumes "\<not> (0 < fromBigEndian (code_address message)
              \<and> fromBigEndian (code_address message) < MAX_PRECOMPILED_ADDRESS
              \<and> m_precompiledManager h (fromBigEndian (code_address message)) \<noteq> None)"
    and "kind message \<noteq> EVMC_CREATE2"
  shows "\<exists>child.
           HostContext_new (m_globals h) (m_vmFactory h) (m_blockHeader h) (m_message child)
             (m_origin h) (m_contextID h) (m_precompiledManager h)
             (sh\<lparr>m_seq := m_seq sh + 1\<rparr>) = Inr child
           \<and> (m_message child = message
               \<or> m_message child = message\<lparr>sender := m_newContractAddress h\<rparr>)
           \<and> m_logs child = []
           \<and> (\<forall>ex result child1 sh2.
                 ex child (sh\<lparr>m_seq := m_seq sh + 1\<rparr>) = Some (Inr result, child1, sh2) \<longrightarrow>
                   (status_code result = EVMC_SUCCESS \<longrightarrow>
                      externalCall ex h message sh
                        = Some (Inr result, h\<lparr>m_logs := m_logs h @ m_logs child1\<rparr>, sh2))
                   \<and> (status_code result \<noteq> EVMC_SUCCESS \<longrightarrow>
                        externalCall ex h message sh = Some (Inr result, h, sh2)))
           \<and> (\<forall>ex e child1 sh2.
                 ex child (sh\<lparr>m_seq := m_seq sh + 1\<rparr>) = Some (Inl e, child1, sh2) \<longrightarrow>
                   externalCall ex h message sh = Some (Inl e, h, sh2))"
proof -
  from externalCall_dispatch [OF assms, of sh] obtain child where
    c: "HostContext_new (m_globals h) (m_vmFactory h) (m_blockHeader h)
             (if kind message = EVMC_CREATE \<and> sender message = EMPTY_ADDRESS
              then message\<lparr>sender := m_newContractAddress h\<rparr> else message)
             (m_origin h) (m_contextID h) (m_precompiledManager h) (sh\<lparr>m_seq := m_seq sh + 1\<rparr>)
           = Inr child"
    and m: "m_message child =
             (if kind message = EVMC_CREATE \<and> sender message = EMPTY_ADDRESS
              then message\<lparr>sender := m_newContractAddress h\<rparr> else message)"
    and l: "m_logs child = []"
    and e: "\<And>ex. externalCall ex h message sh =
               (case ex child (sh\<lparr>m_seq := m_seq sh + 1\<rparr>) of
                  None \<Rightarrow> None
                | Some (Inl e, child1, sh2) \<Rightarrow> Some (Inl e, h, sh2)
                | Some (Inr result, child1, sh2) \<Rightarrow>
                    Some (Inr result,
                          h\<lparr>m_logs := m_logs h @
                               (if status_code result = EVMC_SUCCESS then m_logs child1 else [])\<rparr>,
                          sh2))"
    by blast
  have 1: "HostContext_new (m_globals h) (m_vmFactory h) (m_blockHeader h) (m_message child)
                  (m_origin h) (m_contextID h) (m_precompiledManager h)
                  (sh\<lparr>m_seq := m_seq sh + 1\<rparr>) = Inr child"
    using c m by simp
  have 2: "(status_code result = EVMC_SUCCESS \<longrightarrow>
                      externalCall ex h message sh
                        = Some (Inr result, h\<lparr>m_logs := m_logs h @ m_logs child1\<rparr>, sh2))
                   \<and> (status_code result \<noteq> EVMC_SUCCESS \<longrightarrow>
                        externalCall ex h message sh = Some (Inr result, h, sh2))"
    if "ex child (sh\<lparr>m_seq := m_seq sh + 1\<rparr>) = Some (Inr result, child1, sh2)"
    for ex result child1 sh2
    unfolding e [of ex] using that by simp
  have 3: "externalCall ex h message sh = Some (Inl e, h, sh2)"
    if "ex child (sh\<lparr>m_seq := m_seq sh + 1\<rparr>) = Some (Inl e, child1, sh2)"
    for ex e child1 sh2
    unfolding e [of ex] using that by simp
  have 4: "m_message child = message
           \<or> m_message child = message\<lparr>sender := m_newContractAddress h\<rparr>"
    using m by (simp split: if_splits)
  from 1 4 l 2 3 show ?thesis by blast
qed

theorem externalCall_logs_witness:
  "fromBigEndian (code_address (ex_message EVMC_CALL '''' ex_address)) \<ge> MAX_PRECOMPILED_ADDRESS
   \<and> kind (ex_message EVMC_CALL '''' ex_address) \<noteq> EVMC_CREATE2
   \<and> execute_depth 1 ex_call_host (ex_shared\<lparr>m_seq := m_seq ex_shared + 1\<rparr>)
      = Some (Inr (ex_result 2 ''reason''), log [] ''event'' ex_call_host,
              ex_shared\<lparr>m_seq := m_seq ex_shared + 1\<rparr>)
   \<and> status_code (ex_result 2 ''reason'') \<noteq> EVMC_SUCCESS
   \<and> externalCall (execute_depth 1) ex_call_host (ex_message EVMC_CALL '''' ex_address) ex_shared
      = Some (Inr (ex_result 2 ''reason''), ex_call_host,
              ex_shared\<lparr>m_seq := m_seq ex_shared + 1\<rparr>)
   \<and> fromBigEndian (code_address (ex_message EVMC_CREATE ''deploy'' EMPTY_ADDRESS)) = 0
   \<and> kind (ex_message EVMC_CREATE ''deploy'' EMPTY_ADDRESS) \<noteq> EVMC_CREATE2
   \<and> status_code ((ex_result 0 ''runtime'')\<lparr>create_address := ''10_1_1..............''\<rparr>)
      = EVMC_SUCCESS
   \<and> externalCall (execute_depth 1) ex_call_host (ex_message EVMC_CREATE ''deploy'' EMPTY_ADDRESS)
        ex_shared
      = Some (Inr ((ex_result 0 ''runtime'')\<lparr>create_address := ''10_1_1..............''\<rparr>),
              ex_call_host
                \<lparr>m_logs := [\<lparr>log_address = [], log_topics = [], log_data = ''first''\<rparr>,
                            \<lparr>log_address = [], log_topics = [], log_data = ''second''\<rparr>]\<rparr>,
              setCode_code ex_nested_host ''runtime''
                (set_slot ex_nested_host ''slot'' ''v''
                   (ex_shared\<lparr>m_seq := m_seq ex_shared + 1\<rparr>)))"
proof -
  let ?m3 = "ex_message EVMC_CALL '''' ex_address"
  let ?m4 = "ex_message EVMC_CREATE ''deploy'' EMPTY_ADDRESS"
  let ?sh1 = "ex_shared\<lparr>m_seq := m_seq ex_shared + 1\<rparr>"
  have a3: "fromBigEndian (code_address ?m3) \<ge> MAX_PRECOMPILED_ADDRESS"
    by (simp add: fromBigEndian_def MAX_PRECOMPILED_ADDRESS_def ex_message_def ex_address_def)
  have a4: "fromBigEndian (code_address ?m4) = 0"
    by (simp add: fromBigEndian_def ex_message_def EMPTY_ADDRESS_def zero_address)
  have k3: "kind ?m3 \<noteq> EVMC_CREATE2" and k4: "kind ?m4 \<noteq> EVMC_CREATE2"
    by (simp_all add: ex_message_def)
  have n3: "\<not> (0 < fromBigEndian (code_address ?m3)
              \<and> fromBigEndian (code_address ?m3) < MAX_PRECOMPILED_ADDRESS
              \<and> m_precompiledManager ex_call_host (fromBigEndian (code_address ?m3)) \<noteq> None)"
    using a3 by simp
  have n4: "\<not> (0 < fromBigEndian (code_address ?m4)
              \<and> fromBigEndian (code_address ?m4) < MAX_PRECOMPILED_ADDRESS
              \<and> m_precompiledManager ex_call_host (fromBigEndian (code_address ?m4)) \<noteq> None)"
    using a4 by simp
  have s3: "status_code (ex_result 2 ''reason'') \<noteq> EVMC_SUCCESS"
    and s4: "status_code ((ex_result 0 ''runtime'')\<lparr>create_address := ''10_1_1..............''\<rparr>)
              = EVMC_SUCCESS"
    by (simp_all add: ex_result_def EVMC_SUCCESS_def)
  have c3: "externalCall (execute_depth 1) ex_call_host ?m3 ex_shared
              = Some (Inr (ex_result 2 ''reason''), ex_call_host, ?sh1)"
  proof -
    from externalCall_logs [OF n3 k3, of ex_shared] obtain child where
      new: "HostContext_new (m_globals ex_call_host) (m_vmFactory ex_call_host)
              (m_blockHeader ex_call_host) (m_message child) (m_origin ex_call_host)
              (m_contextID ex_call_host) (m_precompiledManager ex_call_host) ?sh1 = Inr child"
      and msg: "m_message child = ?m3
                \<or> m_message child = ?m3\<lparr>sender := m_newContractAddress ex_call_host\<rparr>"
      and fail: "\<And>ex result child1 sh2.
                   ex child ?sh1 = Some (Inr result, child1, sh2) \<Longrightarrow>
                   status_code result \<noteq> EVMC_SUCCESS \<Longrightarrow>
                   externalCall ex ex_call_host ?m3 ex_shared = Some (Inr result, ex_call_host, sh2)"
      by blast
    have "?m3\<lparr>sender := m_newContractAddress ex_call_host\<rparr> = ?m3"
      by (simp add: ex_call_host_fields ex_message_def)
    with msg have "m_message child = ?m3" by simp
    with new ex_child_new have "child = ex_call_host" by simp
    with fail [OF _ s3] ex_child_run show ?thesis by blast
  qed
  have c4: "externalCall (execute_depth 1) ex_call_host ?m4 ex_shared
              = Some (Inr ((ex_result 0 ''runtime'')\<lparr>create_address := ''10_1_1..............''\<rparr>),
                      ex_call_host
                        \<lparr>m_logs := [\<lparr>log_address = [], log_topics = [], log_data = ''first''\<rparr>,
                                    \<lparr>log_address = [], log_topics = [], log_data = ''second''\<rparr>]\<rparr>,
                      setCode_code ex_nested_host ''runtime''
                        (set_slot ex_nested_host ''slot'' ''v'' ?sh1))"
  proof -
    from externalCall_logs [OF n4 k4, of ex_shared] obtain child where
      new: "HostContext_new (m_globals ex_call_host) (m_vmFactory ex_call_host)
              (m_blockHeader ex_call_host) (m_message child) (m_origin ex_call_host)
              (m_contextID ex_call_host) (m_precompiledManager ex_call_host) ?sh1 = Inr child"
      and msg: "m_message child = ?m4
                \<or> m_message child = ?m4\<lparr>sender := m_newContractAddress ex_call_host\<rparr>"
      and good: "\<And>ex result child1 sh2.
                   ex child ?sh1 = Some (Inr result, child1, sh2) \<Longrightarrow>
                   status_code result = EVMC_SUCCESS \<Longrightarrow>
                   externalCall ex ex_call_host ?m4 ex_shared
                     = Some (Inr result, ex_call_host\<lparr>m_logs := m_logs ex_call_host @ m_logs child1\<rparr>,
                             sh2)"
      by blast
    have "?m4\<lparr>sender := m_newContractAddress ex_call_host\<rparr> = ?m4"
      by (simp add: ex_call_host_fields ex_message_def)
    with msg have "m_message child = ?m4" by simp
    with new ex_nested_new have child: "child = ex_nested_host" by simp
    have l: "m_logs ex_call_host @ m_logs (log [] ''second'' (log [] ''first'' ex_nested_host))
             = [\<lparr>log_address = [], log_topics = [], log_data = ''first''\<rparr>,
                \<lparr>log_address = [], log_topics = [], log_data = ''second''\<rparr>]"
      by (simp add: ex_call_host_fields log_def ex_nested_host_def ex_host_def)
    from good [of "execute_depth 1", unfolded child, OF ex_nested_run s4] l
    show ?thesis by simp
  qed
  from a3 k3 ex_child_run s3 c3 a4 k4 s4 c4 show ?thesis by blast
qed

end
